theory Spec2Isabelle
  imports Main "HOL-Library.List_Lexorder" "HOL-Library.Char_ord" "HOL-Library.Multiset"
begin

text \<open>
  A shallow embedding of the two scripts of the X-Fact repository:
  \<open>xfact_evidence.py\<close>, which loads claims with their evidence passages from
  tab-separated files, builds a label vocabulary for each source and converts examples to
  fixed-length features, and \<open>eda.py\<close>, which cuts the test file into three files by
  year. Python functions are HOL functions; an exception is a value \<open>Inl e\<close>; the
  file system, the random generator and the tokenizer are parameters.
\<close>

section \<open>Python values and errors\<close>

text \<open>
  The exceptions the two scripts can raise are values of one datatype. A function that
  can raise returns \<open>error + 'a\<close>, with \<open>Inl\<close> for the exception.
  \<open>KeyError\<close> and \<open>ValueError\<close> carry the offending key or label,
  \<open>IOError\<close> the path.
\<close>

datatype error =
    KeyError string
  | IndexError
  | ValueError string
  | AttributeError
  | TypeError
  | IOError string

text \<open>
  Python list indexing \<open>xs[i]\<close>: a negative index counts from the end, an index out of
  range raises \<open>IndexError\<close>.
\<close>

definition py_index :: "'a list \<Rightarrow> int \<Rightarrow> error + 'a" where
  "py_index xs i =
     (if 0 \<le> i \<and> i < int (length xs) then Inr (xs ! nat i)
      else if i < 0 \<and> - i \<le> int (length xs) then Inr (xs ! nat (int (length xs) + i))
      else Inl IndexError)"

text \<open>
  \<open>str.lower\<close> and \<open>str.strip\<close> on the ASCII range: strings are byte lists here, and
  the case mapping and the white space of code points beyond ASCII are outside the model.
\<close>

definition char_lower :: "char \<Rightarrow> char" where
  "char_lower c =
     (if CHR ''A'' \<le> c \<and> c \<le> CHR ''Z'' then char_of (of_char c + (32::nat)) else c)"

definition lower :: "string \<Rightarrow> string" where
  "lower s = map char_lower s"

definition is_space :: "char \<Rightarrow> bool" where
  "is_space c = (of_char c \<in> {9, 10, 11, 12, 13, 28, 29, 30, 31, 32 :: nat})"

definition strip :: "string \<Rightarrow> string" where
  "strip s = rev (dropWhile is_space (rev (dropWhile is_space s)))"

text \<open>\<open>str(n)\<close> for a natural number, as \<open>"%s" % i\<close> prints the row index.\<close>

definition digit_char :: "nat \<Rightarrow> char" where
  "digit_char d = char_of (of_char CHR ''0'' + d)"

fun str_nat :: "nat \<Rightarrow> string" where
  "str_nat n = (if 10 \<le> n then str_nat (n div 10) @ [digit_char (n mod 10)] else [digit_char n])"

declare str_nat.simps [simp del]

text \<open>
  \<open>os.path.join\<close> of two components on POSIX: an absolute second component replaces
  the first, otherwise the two are joined by one slash unless the first is empty or
  already ends with one.
\<close>

definition path_join :: "string \<Rightarrow> string \<Rightarrow> string" where
  "path_join a b =
     (if b \<noteq> [] \<and> hd b = CHR ''/'' then b
      else if a = [] \<or> last a = CHR ''/'' then a @ b
      else a @ ''/'' @ b)"

text \<open>
  \<open>random.shuffle\<close>: for \<open>i\<close> from the last index down to 1, swap positions \<open>i\<close>
  and \<open>j\<close>, where \<open>j\<close> is drawn below \<open>i + 1\<close>. The generator is a
  parameter: \<open>rng i\<close> is the raw draw at position \<open>i\<close>.
\<close>

fun shuffle_loop :: "(nat \<Rightarrow> nat) \<Rightarrow> nat \<Rightarrow> 'a list \<Rightarrow> 'a list" where
  "shuffle_loop rng 0 x = x"
| "shuffle_loop rng (Suc i) x =
     (let j = rng (Suc i) mod (Suc i + 1)
      in shuffle_loop rng i (x[Suc i := x ! j, j := x ! Suc i]))"

definition shuffle :: "(nat \<Rightarrow> nat) \<Rightarrow> 'a list \<Rightarrow> 'a list" where
  "shuffle rng x = shuffle_loop rng (length x - 1) x"

section \<open>xfact\_evidence.py: examples, encodings, features\<close>

text \<open>
  \<open>InputExample\<close> (lines 33-50) and \<open>InputFeatures\<close> (lines 64-75) are the two frozen
  dataclasses of the source, field for field. Both have fields \<open>example_id\<close> and
  \<open>label\<close>; the ones of \<open>InputExample\<close> are written qualified.
\<close>

record InputExample =
  example_id :: string
  question :: string
  contexts :: "string list"
  label :: "string option"

text \<open>
  What the tokenizer returns for one choice: a dictionary that always holds
  \<open>input_ids\<close> and may hold \<open>attention_mask\<close>, \<open>token_type_ids\<close> and
  \<open>num_truncated_tokens\<close>. A key that is absent is \<open>None\<close>.
\<close>

record Encoding =
  enc_input_ids :: "int list"
  enc_attention_mask :: "int list option"
  enc_token_type_ids :: "int list option"
  enc_num_truncated_tokens :: "int option"

text \<open>
  The tokenizer is external: \<open>tokenizer text_a text_b max_length\<close>, with \<open>text_b\<close>
  \<open>None\<close> when only one segment is encoded. \<open>max_length\<close> is a length, hence a
  natural number.
\<close>

type_synonym tokenizer = "string \<Rightarrow> string option \<Rightarrow> nat \<Rightarrow> Encoding"

record InputFeatures =
  example_id :: string
  input_ids :: "int list list"
  attention_mask :: "int list list option"
  token_type_ids :: "int list list option"
  label :: "nat option"

text \<open>
  \<open>label_map = {label: i for i, label in enumerate(label_list)}\<close> (lines 268 and 333):
  the dictionary is filled from left to right, so a label that occurs twice keeps its
  last position.
\<close>

definition label_map :: "string list \<Rightarrow> (string \<rightharpoonup> nat)" where
  "label_map label_list =
     fold (\<lambda>(i, label) m. m(label \<mapsto> i)) (zip [0..<length label_list] label_list) Map.empty"

text \<open>
  The test \<open>"num_truncated_tokens" in inputs and inputs["num_truncated_tokens"] > 0\<close>
  (lines 290, 349 and 374) that guards the logged message about cropped tokens.
\<close>

definition truncation_logged :: "Encoding \<Rightarrow> bool" where
  "truncation_logged inputs =
     (case enc_num_truncated_tokens inputs of None \<Rightarrow> False | Some n \<Rightarrow> n > 0)"

text \<open>
  The inner loop of the evidence-pairing converter (lines 274-297): one choice per
  evidence, the claim as first segment and the evidence as second.
\<close>

definition evidence_choices :: "tokenizer \<Rightarrow> nat \<Rightarrow> InputExample \<Rightarrow> Encoding list" where
  "evidence_choices tokenizer max_length example =
     map (\<lambda>context. tokenizer (question example) (Some context) max_length) (contexts example)"

text \<open>
  The claim-plus-evidence converter (lines 339-381): the claim alone is choice 0, then
  every evidence alone, each with no second segment.
\<close>

definition claim_evidence_choices :: "tokenizer \<Rightarrow> nat \<Rightarrow> InputExample \<Rightarrow> Encoding list" where
  "claim_evidence_choices tokenizer max_length example =
     tokenizer (question example) None max_length
       # map (\<lambda>context. tokenizer context None max_length) (contexts example)"

text \<open>
  \<open>[x[key] for x in choices_inputs] if key in choices_inputs[0] else None\<close>
  (lines 302-307 and 386-391). The condition is evaluated first: \<open>choices_inputs[0]\<close>
  raises \<open>IndexError\<close> on an empty list. When the first choice holds the key, the
  comprehension reads it from every choice and raises \<open>KeyError\<close> at one that lacks it.
\<close>

fun read_all :: "string \<Rightarrow> (Encoding \<Rightarrow> int list option) \<Rightarrow> Encoding list \<Rightarrow> error + int list list" where
  "read_all key field [] = Inr []"
| "read_all key field (x # xs) =
     (case field x of
        None \<Rightarrow> Inl (KeyError key)
      | Some v \<Rightarrow> (case read_all key field xs of Inl e \<Rightarrow> Inl e | Inr vs \<Rightarrow> Inr (v # vs)))"

definition collect_optional ::
  "string \<Rightarrow> (Encoding \<Rightarrow> int list option) \<Rightarrow> Encoding list \<Rightarrow> error + int list list option" where
  "collect_optional key field choices_inputs =
     (case choices_inputs of
        [] \<Rightarrow> Inl IndexError
      | first # _ \<Rightarrow>
          (case field first of
             None \<Rightarrow> Inr None
           | Some _ \<Rightarrow>
               (case read_all key field choices_inputs of
                  Inl e \<Rightarrow> Inl e
                | Inr vs \<Rightarrow> Inr (Some vs))))"

text \<open>
  From the choices of one example to its \<open>InputFeatures\<close> (lines 299-318 and 383-402,
  the same text in both converters): the label is looked up first (\<open>KeyError\<close> when it
  is not in the map, also when the example has no label), then the three lists are built.
\<close>

definition build_features ::
  "(string \<rightharpoonup> nat) \<Rightarrow> InputExample \<Rightarrow> Encoding list \<Rightarrow> error + InputFeatures" where
  "build_features lmap example choices_inputs =
     (case InputExample.label example of
        None \<Rightarrow> Inl (KeyError ''None'')
      | Some l \<Rightarrow>
     (case lmap l of
        None \<Rightarrow> Inl (KeyError l)
      | Some i \<Rightarrow>
     (case collect_optional ''attention_mask'' enc_attention_mask choices_inputs of
        Inl e \<Rightarrow> Inl e
      | Inr am \<Rightarrow>
     (case collect_optional ''token_type_ids'' enc_token_type_ids choices_inputs of
        Inl e \<Rightarrow> Inl e
      | Inr tt \<Rightarrow>
          Inr \<lparr>example_id = InputExample.example_id example,
               input_ids = map enc_input_ids choices_inputs,
               attention_mask = am,
               token_type_ids = tt,
               label = Some i\<rparr>))))"

text \<open>
  The outer loop of both converters (lines 270-318 and 335-402), with the list
  \<open>features\<close> that it appends to and the number of cropped-token messages logged so
  far. The function returns both: the outcome of the call (the features, or the
  exception that ended it) and the messages logged up to then. The progress messages
  every 10000 examples and the two features logged at the end carry no data and are
  left out.
\<close>

fun convert_loop ::
  "(InputExample \<Rightarrow> Encoding list) \<Rightarrow> (string \<rightharpoonup> nat) \<Rightarrow> InputExample list
     \<Rightarrow> InputFeatures list \<Rightarrow> nat \<Rightarrow> (error + InputFeatures list) \<times> nat" where
  "convert_loop choices lmap [] features logged = (Inr features, logged)"
| "convert_loop choices lmap (example # examples) features logged =
     (let choices_inputs = choices example;
          logged' = logged + length (filter truncation_logged choices_inputs)
      in case build_features lmap example choices_inputs of
           Inl e \<Rightarrow> (Inl e, logged')
         | Inr f \<Rightarrow> convert_loop choices lmap examples (features @ [f]) logged')"

definition xfact_evidence_convert_examples_to_features ::
  "InputExample list \<Rightarrow> string list \<Rightarrow> nat \<Rightarrow> tokenizer \<Rightarrow> (error + InputFeatures list) \<times> nat" where
  "xfact_evidence_convert_examples_to_features examples label_list max_length tokenizer =
     convert_loop (evidence_choices tokenizer max_length) (label_map label_list) examples [] 0"

definition xfact_claim_evidence_convert_examples_to_features ::
  "InputExample list \<Rightarrow> string list \<Rightarrow> nat \<Rightarrow> tokenizer \<Rightarrow> (error + InputFeatures list) \<times> nat" where
  "xfact_claim_evidence_convert_examples_to_features examples label_list max_length tokenizer =
     convert_loop (claim_evidence_choices tokenizer max_length) (label_map label_list) examples [] 0"

section \<open>xfact\_evidence.py: the processor\<close>

text \<open>
  \<open>get_metadata\<close> (lines 53-61). The fields are read in the order of the source:
  \<open>line[-3]\<close>, \<open>line[-4]\<close>, \<open>line[0]\<close>, \<open>line[1]\<close>, \<open>line[-5]\<close>.
\<close>

definition get_metadata :: "string list \<Rightarrow> error + string" where
  "get_metadata line =
     (case py_index line (- 3) of Inl e \<Rightarrow> Inl e | Inr f3 \<Rightarrow>
     (case py_index line (- 4) of Inl e \<Rightarrow> Inl e | Inr f4 \<Rightarrow>
     (case py_index line 0 of Inl e \<Rightarrow> Inl e | Inr f0 \<Rightarrow>
     (case py_index line 1 of Inl e \<Rightarrow> Inl e | Inr f1 \<Rightarrow>
     (case py_index line (- 5) of Inl e \<Rightarrow> Inl e | Inr f5 \<Rightarrow>
        (let claimant = strip f3;
             review_date = strip f4;
             language = strip f0;
             site = strip f1;
             claim_date = strip f5
         in Inr (''language : '' @ language @ '', site : '' @ site @
                 '', claimant : '' @ claimant @ '', claim_date : '' @ claim_date @
                 '', review_date: '' @ review_date)))))))"

text \<open>
  The label set of one source: a Python \<open>set\<close> while the training scan collects
  labels, a sorted \<open>list\<close> once \<open>sort_label_set\<close> has run. \<open>in\<close> works on both;
  \<open>add\<close> exists on the set only. \<open>sorted\<close> orders strings by code point, which
  is the lexicographic order of their bytes in UTF-8, the order of \<open>string\<close> here.
\<close>

datatype label_container = Label_set "string set" | Label_list "string list"

fun labels_of :: "label_container \<Rightarrow> string set" where
  "labels_of (Label_set S) = S"
| "labels_of (Label_list ls) = set ls"

fun container_add :: "string \<Rightarrow> label_container \<Rightarrow> error + label_container" where
  "container_add l (Label_set S) = Inr (Label_set (insert l S))"
| "container_add l (Label_list ls) = Inl AttributeError"

fun sorted_container :: "label_container \<Rightarrow> label_container" where
  "sorted_container (Label_set S) = Label_list (sorted_list_of_set S)"
| "sorted_container (Label_list ls) = Label_list (sort ls)"

text \<open>
  The processor object (lines 112-117). \<open>sources\<close> is \<open>None\<close> by default;
  \<open>num_evidences\<close> is a count.
\<close>

record XFactEvidenceProcessor =
  sources :: "string list option"
  label_sets :: "string \<rightharpoonup> label_container"
  label_count :: "string \<rightharpoonup> (string \<rightharpoonup> nat)"
  num_evidences :: nat
  use_metadata :: bool

text \<open>The file system as \<open>_read_tsv\<close> sees it: the rows of each readable file, header included.\<close>

type_synonym file_system = "string \<rightharpoonup> string list list"

definition read_tsv :: "file_system \<Rightarrow> string \<Rightarrow> error + string list list" where
  "read_tsv fs input_file = (case fs input_file of None \<Rightarrow> Inl (IOError input_file) | Some rows \<Rightarrow> Inr rows)"

text \<open>\<open>create_example\<close> (lines 167-176): the loop over \<open>range(num_evidences)\<close> first.\<close>

fun read_fields :: "string list \<Rightarrow> int list \<Rightarrow> error + string list" where
  "read_fields line [] = Inr []"
| "read_fields line (i # is) =
     (case py_index line i of
        Inl e \<Rightarrow> Inl e
      | Inr v \<Rightarrow> (case read_fields line is of Inl e \<Rightarrow> Inl e | Inr vs \<Rightarrow> Inr (v # vs)))"

definition create_example ::
  "XFactEvidenceProcessor \<Rightarrow> string list \<Rightarrow> error + (string list \<times> string \<times> string \<times> string)" where
  "create_example self line =
     (case read_fields line (map (\<lambda>i. 2 + int i) [0..<num_evidences self]) of
        Inl e \<Rightarrow> Inl e | Inr evidences \<Rightarrow>
     (case py_index line (- 2) of Inl e \<Rightarrow> Inl e | Inr claim_text \<Rightarrow>
     (case py_index line (- 1) of Inl e \<Rightarrow> Inl e | Inr l \<Rightarrow>
     (case get_metadata line of Inl e \<Rightarrow> Inl e | Inr metadata \<Rightarrow>
        Inr (evidences, claim_text, lower l, metadata)))))"

text \<open>
  The \<open>InputExample\<close> built in all three loaders (lines 151-158, 202-209, 243-250);
  the guid is \<open>"train-i"\<close> in each of them.
\<close>

definition make_example ::
  "XFactEvidenceProcessor \<Rightarrow> nat \<Rightarrow> string list \<times> string \<times> string \<times> string \<Rightarrow> InputExample" where
  "make_example self i created =
     (case created of (evidences, claim_text, l, metadata) \<Rightarrow>
        \<lparr>InputExample.example_id = ''train-'' @ str_nat i,
         question = (if use_metadata self then claim_text @ '' '' @ metadata else claim_text),
         contexts = evidences,
         InputExample.label = Some l\<rparr>)"

text \<open>
  Lines 142-146: with \<open>create_label_set\<close> the label is added to the source's set,
  otherwise it must be in it.
\<close>

definition note_label ::
  "XFactEvidenceProcessor \<Rightarrow> string \<Rightarrow> bool \<Rightarrow> string \<Rightarrow> error + XFactEvidenceProcessor" where
  "note_label self source create_label_set l =
     (case label_sets self source of
        None \<Rightarrow> Inl (KeyError source)
      | Some c \<Rightarrow>
          if create_label_set then
            (case container_add l c of
               Inl e \<Rightarrow> Inl e
             | Inr c' \<Rightarrow> Inr (self\<lparr>label_sets := (label_sets self)(source \<mapsto> c')\<rparr>))
          else if l \<notin> labels_of c then Inl (ValueError l)
          else Inr self)"

text \<open>Lines 147-149: the tally of the label.\<close>

definition count_label ::
  "XFactEvidenceProcessor \<Rightarrow> string \<Rightarrow> string \<Rightarrow> error + XFactEvidenceProcessor" where
  "count_label self source l =
     (case label_count self source of
        None \<Rightarrow> Inl (KeyError source)
      | Some counts \<Rightarrow>
          Inr (self\<lparr>label_count := (label_count self)
                 (source \<mapsto> counts(l \<mapsto> (case counts l of None \<Rightarrow> 0 | Some n \<Rightarrow> n) + 1))\<rparr>))"

text \<open>
  The loop of \<open>get_train_examples\<close> (lines 135-159) over \<open>enumerate(lines)\<close>: row 0 is
  the header, an empty row is passed over.
\<close>

fun train_loop ::
  "XFactEvidenceProcessor \<Rightarrow> string \<Rightarrow> bool \<Rightarrow> (nat \<times> string list) list \<Rightarrow> InputExample list
     \<Rightarrow> error + (InputExample list \<times> XFactEvidenceProcessor)" where
  "train_loop self source create_label_set [] examples = Inr (examples, self)"
| "train_loop self source create_label_set ((i, line) # rest) examples =
     (if i = 0 then train_loop self source create_label_set rest examples
      else if length line = 0 then train_loop self source create_label_set rest examples
      else
        (case create_example self line of Inl e \<Rightarrow> Inl e | Inr created \<Rightarrow>
        (case note_label self source create_label_set (fst (snd (snd created))) of
           Inl e \<Rightarrow> Inl e | Inr self1 \<Rightarrow>
        (case count_label self1 source (fst (snd (snd created))) of
           Inl e \<Rightarrow> Inl e | Inr self2 \<Rightarrow>
           train_loop self2 source create_label_set rest
             (examples @ [make_example self2 i created])))))"

definition enumerate_rows :: "string list list \<Rightarrow> (nat \<times> string list) list" where
  "enumerate_rows lines = zip [0..<length lines] lines"

definition get_train_examples ::
  "file_system \<Rightarrow> (nat \<Rightarrow> nat) \<Rightarrow> XFactEvidenceProcessor \<Rightarrow> string \<Rightarrow> string \<Rightarrow> bool
     \<Rightarrow> error + (InputExample list \<times> XFactEvidenceProcessor)" where
  "get_train_examples fs rng self data_dir source create_label_set =
     (let self0 =
            (if label_sets self source = None
             then self\<lparr>label_sets := (label_sets self)(source \<mapsto> Label_set {}),
                       label_count := (label_count self)(source \<mapsto> Map.empty)\<rparr>
             else self)
      in case read_tsv fs (path_join data_dir (''train.'' @ source @ ''.tsv'')) of
           Inl e \<Rightarrow> Inl e
         | Inr lines \<Rightarrow>
             (case train_loop self0 source create_label_set (enumerate_rows lines) [] of
                Inl e \<Rightarrow> Inl e
              | Inr (examples, self') \<Rightarrow> Inr (shuffle rng examples, self')))"

text \<open>
  The loop of \<open>get_dev_examples\<close> and \<open>get_test_examples\<close> (lines 189-210 and 231-251,
  the same text): an example whose label is not in the source's label set is counted
  and passed over. The function returns the examples and \<open>examples_skipped\<close>, the
  count that the source prints.
\<close>

fun filtered_loop ::
  "XFactEvidenceProcessor \<Rightarrow> string \<Rightarrow> (nat \<times> string list) list \<Rightarrow> InputExample list \<Rightarrow> nat
     \<Rightarrow> error + (InputExample list \<times> nat)" where
  "filtered_loop self source [] examples examples_skipped = Inr (examples, examples_skipped)"
| "filtered_loop self source ((i, line) # rest) examples examples_skipped =
     (if i = 0 then filtered_loop self source rest examples examples_skipped
      else if length line = 0 then filtered_loop self source rest examples examples_skipped
      else
        (case create_example self line of Inl e \<Rightarrow> Inl e | Inr created \<Rightarrow>
        (case label_sets self source of None \<Rightarrow> Inl (KeyError source) | Some c \<Rightarrow>
           if fst (snd (snd created)) \<notin> labels_of c
           then filtered_loop self source rest examples (examples_skipped + 1)
           else filtered_loop self source rest (examples @ [make_example self i created])
                  examples_skipped)))"

definition get_dev_examples ::
  "file_system \<Rightarrow> XFactEvidenceProcessor \<Rightarrow> string \<Rightarrow> string \<Rightarrow> string option
     \<Rightarrow> error + (InputExample list \<times> nat)" where
  "get_dev_examples fs self data_dir source filename =
     (case read_tsv fs (path_join data_dir
              (case filename of None \<Rightarrow> ''dev.'' @ source @ ''.tsv'' | Some name \<Rightarrow> name)) of
        Inl e \<Rightarrow> Inl e
      | Inr lines \<Rightarrow> filtered_loop self source (enumerate_rows lines) [] 0)"

definition get_test_examples ::
  "file_system \<Rightarrow> XFactEvidenceProcessor \<Rightarrow> string \<Rightarrow> string
     \<Rightarrow> error + (InputExample list \<times> nat)" where
  "get_test_examples fs self data_dir source =
     (case read_tsv fs (path_join data_dir (''test.'' @ source @ ''.tsv'')) of
        Inl e \<Rightarrow> Inl e
      | Inr lines \<Rightarrow> filtered_loop self source (enumerate_rows lines) [] 0)"

text \<open>\<open>sort_label_set\<close> (lines 217-223) and \<open>get_labels\<close> (lines 255-258).\<close>

definition sort_label_set :: "XFactEvidenceProcessor \<Rightarrow> XFactEvidenceProcessor" where
  "sort_label_set self =
     self\<lparr>label_sets := (\<lambda>key. map_option sorted_container (label_sets self key))\<rparr>"

definition get_labels ::
  "XFactEvidenceProcessor \<Rightarrow> (string \<rightharpoonup> label_container) \<times> XFactEvidenceProcessor" where
  "get_labels self = (let self' = sort_label_set self in (label_sets self', self'))"

text \<open>
  The constructor (lines 112-123): with a \<open>data_dir\<close>, every source's training file
  is scanned with \<open>create_label_set=True\<close> (iterating over \<open>sources = None\<close> raises
  \<open>TypeError\<close>), then the label sets are sorted.
\<close>

fun scan_sources ::
  "file_system \<Rightarrow> (nat \<Rightarrow> nat) \<Rightarrow> XFactEvidenceProcessor \<Rightarrow> string \<Rightarrow> string list
     \<Rightarrow> error + XFactEvidenceProcessor" where
  "scan_sources fs rng self data_dir [] = Inr self"
| "scan_sources fs rng self data_dir (source # rest) =
     (case get_train_examples fs rng self data_dir source True of
        Inl e \<Rightarrow> Inl e
      | Inr (examples, self') \<Rightarrow> scan_sources fs rng self' data_dir rest)"

definition init ::
  "file_system \<Rightarrow> (nat \<Rightarrow> nat) \<Rightarrow> string list option \<Rightarrow> nat \<Rightarrow> bool \<Rightarrow> string option
     \<Rightarrow> error + XFactEvidenceProcessor" where
  "init fs rng srcs n_evidences metadata data_dir =
     (let self = \<lparr>sources = srcs, label_sets = Map.empty, label_count = Map.empty,
                  num_evidences = n_evidences, use_metadata = metadata\<rparr>
      in case data_dir of
           None \<Rightarrow> Inr (sort_label_set self)
         | Some dir \<Rightarrow>
             (case srcs of
                None \<Rightarrow> Inl TypeError
              | Some ss \<Rightarrow>
                  (case scan_sources fs rng self dir ss of
                     Inl e \<Rightarrow> Inl e
                   | Inr self' \<Rightarrow> Inr (sort_label_set self'))))"

section \<open>eda.py: the year filter\<close>

text \<open>
  A data frame is a list of rows, a row a dictionary from column names to cells. A cell
  of the frame that \<open>pd.read_csv\<close> returns is a string or, where pandas has parsed the
  column as integers, an integer; how pandas chooses a column's type, float and boolean
  columns and missing values are outside the model.
\<close>

datatype cell = Text string | Number int



definition str_int :: "int \<Rightarrow> string" where
  "str_int i = (if 0 \<le> i then str_nat (nat i) else CHR ''-'' # str_nat (nat (- i)))"

text \<open>\<open>astype(str)\<close> on one cell, also what \<open>to_csv\<close> writes for it.\<close>

fun astype_str :: "cell \<Rightarrow> string" where
  "astype_str (Text s) = s"
| "astype_str (Number i) = str_int i"














section \<open>Notions used in the statements\<close>

text \<open>
  None of the definitions of this section is a function of the source; they name what
  the theorems are about.

  For the loaders: the rows that yield an example (every row of \<open>enumerate(lines)\<close> but
  the header and the empty ones), the number of columns that \<open>create_example\<close> and
  \<open>get_metadata\<close> read from a row, the example built from such a row, a row's label
  (its last field, lower-cased), the labels held for a source (none when the source is
  unknown), the invariant of an example with respect to the rows of a file, the labels of
  a source's training file, and the state of a processor whose label sets have not been
  sorted yet.
\<close>

definition required_columns :: "XFactEvidenceProcessor \<Rightarrow> nat" where
  "required_columns self = max 5 (num_evidences self + 2)"

definition data_rows :: "(nat \<times> string list) list \<Rightarrow> (nat \<times> string list) list" where
  "data_rows rows = filter (\<lambda>(i, line). i \<noteq> 0 \<and> length line \<noteq> 0) rows"

definition built :: "XFactEvidenceProcessor \<Rightarrow> nat \<times> string list \<Rightarrow> InputExample" where
  "built self row = make_example self (fst row) (projr (create_example self (snd row)))"

definition row_label :: "nat \<times> string list \<Rightarrow> string" where
  "row_label row = lower (last (snd row))"

definition vocabulary :: "XFactEvidenceProcessor \<Rightarrow> string \<Rightarrow> string set" where
  "vocabulary self source = (case label_sets self source of None \<Rightarrow> {} | Some c \<Rightarrow> labels_of c)"

definition holds_invariant :: "XFactEvidenceProcessor \<Rightarrow> string list list \<Rightarrow> InputExample \<Rightarrow> bool" where
  "holds_invariant self lines ex =
     list_ex (\<lambda>row. InputExample.example_id ex = ''train-'' @ str_nat (fst row) \<and>
                    contexts ex = take (num_evidences self) (drop 2 (snd row)) \<and>
                    length (contexts ex) = num_evidences self \<and>
                    InputExample.label ex = Some (lower (last (snd row))))
       (data_rows (enumerate_rows lines))"

definition train_labels :: "file_system \<Rightarrow> string \<Rightarrow> string \<Rightarrow> string set" where
  "train_labels fs data_dir source =
     (case fs (path_join data_dir (''train.'' @ source @ ''.tsv'')) of
        None \<Rightarrow> {}
      | Some lines \<Rightarrow> row_label ` set (data_rows (enumerate_rows lines)))"

definition building :: "XFactEvidenceProcessor \<Rightarrow> bool" where
  "building self \<longleftrightarrow>
     (\<forall>s. label_sets self s = None \<or>
          (\<exists>S. label_sets self s = Some (Label_set S)) \<and> label_count self s \<noteq> None)"

text \<open>
  For the converters: the choices of one example are consistent when every one of them
  holds the attention mask (the segment ids) if the first one does; the masks and segment
  ids of a feature are decided by the first choice when they are absent if the first choice
  has none, and those of all choices otherwise.
\<close>

definition keys_consistent :: "Encoding list \<Rightarrow> bool" where
  "keys_consistent choices_inputs =
     list_all (\<lambda>x. (enc_attention_mask (hd choices_inputs) \<noteq> None \<longrightarrow> enc_attention_mask x \<noteq> None) \<and>
                   (enc_token_type_ids (hd choices_inputs) \<noteq> None \<longrightarrow> enc_token_type_ids x \<noteq> None))
       choices_inputs"

definition decided_by_first_choice :: "InputFeatures \<Rightarrow> Encoding list \<Rightarrow> bool" where
  "decided_by_first_choice f choices_inputs \<longleftrightarrow>
     choices_inputs \<noteq> [] \<and>
     attention_mask f =
       (if enc_attention_mask (hd choices_inputs) = None then None
        else Some (map (the \<circ> enc_attention_mask) choices_inputs)) \<and>
     token_type_ids f =
       (if enc_token_type_ids (hd choices_inputs) = None then None
        else Some (map (the \<circ> enc_token_type_ids) choices_inputs)) \<and>
     keys_consistent choices_inputs"





section \<open>Test data\<close>

text \<open>
  Concrete inputs for the runs below: a small tokenizer (the character codes of both
  segments, cut or padded with zeros to \<open>max_length\<close>, with an attention mask, segment
  ids and the number of characters cut off), a few examples, and a file system with the
  training, development and test files of one source.
\<close>

definition demo_tokenizer :: tokenizer where
  "demo_tokenizer text_a text_b max_length =
     (let text = text_a @ (case text_b of None \<Rightarrow> [] | Some b \<Rightarrow> b)
      in \<lparr>enc_input_ids = take max_length (map (int \<circ> of_char) text @ replicate max_length 0),
          enc_attention_mask = Some (take max_length (replicate (length text) 1 @ replicate max_length 0)),
          enc_token_type_ids = Some (replicate max_length 0),
          enc_num_truncated_tokens = Some (int (length text) - int max_length)\<rparr>)"

definition demo_examples :: "InputExample list" where
  "demo_examples =
     [\<lparr>InputExample.example_id = ''train-1'', question = ''ab'', contexts = [''c'', ''defg''],
       InputExample.label = Some ''true''\<rparr>,
      \<lparr>InputExample.example_id = ''train-2'', question = ''x'', contexts = [''y'', ''''],
       InputExample.label = Some ''false''\<rparr>]"

definition demo_labels :: "string list" where
  "demo_labels = [''false'', ''true'']"

definition demo_evidence_features :: "InputFeatures list" where
  "demo_evidence_features =
     [\<lparr>example_id = ''train-1'',
       input_ids = [[97, 98, 99], [97, 98, 100]],
       attention_mask = Some [[1, 1, 1], [1, 1, 1]],
       token_type_ids = Some [[0, 0, 0], [0, 0, 0]],
       label = Some 1\<rparr>,
      \<lparr>example_id = ''train-2'',
       input_ids = [[120, 121, 0], [120, 0, 0]],
       attention_mask = Some [[1, 1, 0], [1, 0, 0]],
       token_type_ids = Some [[0, 0, 0], [0, 0, 0]],
       label = Some 0\<rparr>]"

definition demo_claim_evidence_features :: "InputFeatures list" where
  "demo_claim_evidence_features =
     [\<lparr>example_id = ''train-1'',
       input_ids = [[97, 98, 0], [99, 0, 0], [100, 101, 102]],
       attention_mask = Some [[1, 1, 0], [1, 0, 0], [1, 1, 1]],
       token_type_ids = Some [[0, 0, 0], [0, 0, 0], [0, 0, 0]],
       label = Some 1\<rparr>,
      \<lparr>example_id = ''train-2'',
       input_ids = [[120, 0, 0], [121, 0, 0], [0, 0, 0]],
       attention_mask = Some [[1, 0, 0], [1, 0, 0], [0, 0, 0]],
       token_type_ids = Some [[0, 0, 0], [0, 0, 0], [0, 0, 0]],
       label = Some 0\<rparr>]"

definition meta_row_en :: "string list" where
  "meta_row_en = [''en'', ''site.org'', ''ev 1'', ''ev 2'', ''ev 3'', ''20200115'', ''20200120'',
                  '' Bob '', ''a claim'', ''True'']"

definition meta_row_fr :: "string list" where
  "meta_row_fr = [''fr'', ''site.org'', ''ev 1'', ''ev 2'', ''ev 3'', ''20200115'', ''20200120'',
                  '' Bob '', ''a claim'', ''True'']"

definition meta_row_short :: "string list" where
  "meta_row_short = [''en'', ''site.org'', ''20200115'', ''20200120'', '' Bob '', ''another claim'', ''False'']"

definition demo_header :: "string list" where
  "demo_header = [''language'', ''site'', ''evidence_1'', ''evidence_2'', ''evidence_3'',
                  ''claimDate'', ''reviewDate'', ''claimant'', ''claim'', ''label'']"

definition demo_row :: "string \<Rightarrow> string \<Rightarrow> string list" where
  "demo_row claim l = [''en'', ''site.org'', ''ev 1'', ''ev 2'', ''ev 3'', ''20200115'', ''20200120'',
                       '' Bob '', claim, l]"

definition demo_train_lines :: "string list list" where
  "demo_train_lines = [demo_header, demo_row ''claim a'' ''True'', demo_row ''claim b'' ''false'', [],
                       demo_row ''claim c'' ''TRUE'']"

definition demo_dev_lines :: "string list list" where
  "demo_dev_lines = [demo_header, demo_row ''claim d'' ''true'', demo_row ''claim e'' ''Unknown'']"

definition demo_test_lines :: "string list list" where
  "demo_test_lines = [demo_header, demo_row ''claim f'' ''False'', [], demo_row ''claim g'' ''half true'']"

definition demo_fs :: file_system where
  "demo_fs path =
     (if path = ''data/train.en.tsv'' then Some demo_train_lines
      else if path = ''data/dev.en.tsv'' then Some demo_dev_lines
      else if path = ''data/test.en.tsv'' then Some demo_test_lines
      else if path = ''new/train.en.tsv'' then Some demo_dev_lines
      else None)"

definition demo_rng :: "nat \<Rightarrow> nat" where
  "demo_rng i = i + 1"

definition demo_processor :: XFactEvidenceProcessor where
  "demo_processor =
     \<lparr>sources = Some [''en''],
      label_sets = [''en'' \<mapsto> Label_list [''false'', ''true'']],
      label_count = [''en'' \<mapsto> [''false'' \<mapsto> 1, ''true'' \<mapsto> 2]],
      num_evidences = 3, use_metadata = False\<rparr>"

definition demo_fresh :: XFactEvidenceProcessor where
  "demo_fresh =
     \<lparr>sources = Some [''en''], label_sets = Map.empty, label_count = Map.empty,
      num_evidences = 3, use_metadata = True\<rparr>"

definition demo_example :: "nat \<Rightarrow> string \<Rightarrow> string \<Rightarrow> InputExample" where
  "demo_example i claim l =
     \<lparr>InputExample.example_id = ''train-'' @ str_nat i, question = claim,
      contexts = [''ev 1'', ''ev 2'', ''ev 3''], InputExample.label = Some l\<rparr>"

definition masking_tokenizer :: tokenizer where
  "masking_tokenizer text_a text_b max_length =
     (demo_tokenizer text_a text_b max_length)
       \<lparr>enc_attention_mask :=
          (if take 1 text_a = ''m'' then Some (replicate max_length 1) else None),
        enc_token_type_ids := None\<rparr>"

definition mixed_examples :: "InputExample list" where
  "mixed_examples =
     [\<lparr>InputExample.example_id = ''train-1'', question = ''plain'', contexts = [''c1''],
       InputExample.label = Some ''true''\<rparr>,
      \<lparr>InputExample.example_id = ''train-2'', question = ''masked'', contexts = [''more''],
       InputExample.label = Some ''true''\<rparr>]"

definition no_evidence_example :: InputExample where
  "no_evidence_example =
     \<lparr>InputExample.example_id = ''train-1'', question = ''a claim'', contexts = [],
      InputExample.label = Some ''true''\<rparr>"






section \<open>The label map and the feature converters\<close>

lemma label_map_snoc: "label_map (xs @ [x]) = (label_map xs)(x \<mapsto> length xs)"
  by (simp add: label_map_def)

lemma label_map_Nil: "label_map [] = Map.empty"
  by (simp add: label_map_def)

lemma label_map_SomeD: "label_map xs l = Some i \<Longrightarrow> i < length xs \<and> xs ! i = l"
proof (induction xs arbitrary: i rule: rev_induct)
  case Nil
  then show ?case by (simp add: label_map_Nil)
next
  case (snoc x xs)
  show ?case
  proof (cases "l = x")
    case True
    with snoc.prems show ?thesis by (auto simp: label_map_snoc)
  next
    case False
    with snoc.prems have "label_map xs l = Some i" by (simp add: label_map_snoc)
    from snoc.IH [OF this] show ?thesis by (simp add: nth_append)
  qed
qed

lemma dom_label_map: "dom (label_map xs) = set xs"
proof (induction xs rule: rev_induct)
  case Nil
  show ?case by (simp add: label_map_Nil)
next
  case (snoc x xs)
  have "dom (label_map (xs @ [x])) = insert x (dom (label_map xs))"
    by (simp only: label_map_snoc dom_fun_upd) simp
  with snoc show ?case by simp
qed

lemma label_map_None_iff: "label_map xs l = None \<longleftrightarrow> l \<notin> set xs"
  using dom_label_map [of xs] by (metis domIff)

lemma label_map_nth:
  assumes "distinct xs" "i < length xs"
  shows "label_map xs (xs ! i) = Some i"
proof -
  have "xs ! i \<in> set xs" using assms by simp
  then obtain j where j: "label_map xs (xs ! i) = Some j"
    using label_map_None_iff [of xs "xs ! i"] by (cases "label_map xs (xs ! i)") auto
  from label_map_SomeD [OF j] have "j < length xs" "xs ! j = xs ! i" by simp_all
  with assms have "j = i" by (simp add: nth_eq_iff_index_eq)
  with j show ?thesis by simp
qed

lemma label_map_bij:
  assumes "distinct xs"
  shows "bij_betw (\<lambda>l. the (label_map xs l)) (set xs) {..<length xs}"
proof (rule bij_betw_byWitness [where f' = "\<lambda>i. xs ! i"])
  show "\<forall>l\<in>set xs. xs ! the (label_map xs l) = l"
  proof
    fix l assume "l \<in> set xs"
    then obtain j where j: "label_map xs l = Some j"
      using label_map_None_iff [of xs l] by (cases "label_map xs l") auto
    from label_map_SomeD [OF j] show "xs ! the (label_map xs l) = l" using j by simp
  qed
  show "\<forall>i\<in>{..<length xs}. the (label_map xs (xs ! i)) = i"
    using label_map_nth [OF assms] by simp
  show "(\<lambda>l. the (label_map xs l)) ` set xs \<subseteq> {..<length xs}"
  proof
    fix i assume "i \<in> (\<lambda>l. the (label_map xs l)) ` set xs"
    then obtain l where l: "l \<in> set xs" "i = the (label_map xs l)" by auto
    then obtain j where j: "label_map xs l = Some j"
      using label_map_None_iff [of xs l] by (cases "label_map xs l") auto
    from label_map_SomeD [OF j] l j show "i \<in> {..<length xs}" by simp
  qed
  show "(\<lambda>i. xs ! i) ` {..<length xs} \<subseteq> set xs" by auto
qed

lemma read_all_Inl:
  "read_all key field xs = Inl e \<longleftrightarrow> (\<exists>x\<in>set xs. field x = None) \<and> e = KeyError key"
proof (induction xs)
  case Nil
  show ?case by simp
next
  case (Cons x xs)
  show ?case
  proof (cases "field x")
    case None
    then show ?thesis by auto
  next
    case (Some v)
    then show ?thesis using Cons.IH by (cases "read_all key field xs") auto
  qed
qed

lemma read_all_Inr:
  "read_all key field xs = Inr vs \<longleftrightarrow> (\<forall>x\<in>set xs. field x \<noteq> None) \<and> vs = map (the \<circ> field) xs"
proof (induction xs arbitrary: vs)
  case Nil
  show ?case by auto
next
  case (Cons x xs)
  show ?case
  proof (cases "field x")
    case None
    then show ?thesis by auto
  next
    case (Some v)
    show ?thesis
    proof (cases "read_all key field xs")
      case (Inl e)
      then have "\<exists>x\<in>set xs. field x = None" by (simp add: read_all_Inl)
      with Some Inl show ?thesis by auto
    next
      case (Inr ws)
      then have "(\<forall>x\<in>set xs. field x \<noteq> None) \<and> ws = map (the \<circ> field) xs"
        by (simp add: Cons.IH)
      with Some Inr show ?thesis by auto
    qed
  qed
qed

lemma collect_optional_Inr:
  "collect_optional key field cs = Inr r \<longleftrightarrow>
     cs \<noteq> [] \<and>
     (if field (hd cs) = None then r = None
      else (\<forall>x\<in>set cs. field x \<noteq> None) \<and> r = Some (map (the \<circ> field) cs))"
proof (cases cs)
  case Nil
  then show ?thesis by (simp add: collect_optional_def)
next
  case (Cons c cs')
  show ?thesis
  proof (cases "field c")
    case None
    with Cons show ?thesis by (auto simp: collect_optional_def)
  next
    case (Some v)
    show ?thesis
    proof (cases "read_all key field cs")
      case (Inl e)
      then have "\<exists>x\<in>set cs. field x = None" by (simp add: read_all_Inl)
      moreover have "collect_optional key field cs = Inl e"
        using Cons Some Inl by (simp add: collect_optional_def)
      ultimately show ?thesis using Cons Some by auto
    next
      case (Inr vs)
      then have vs: "(\<forall>x\<in>set cs. field x \<noteq> None) \<and> vs = map (the \<circ> field) cs"
        by (simp add: read_all_Inr)
      moreover have "collect_optional key field cs = Inr (Some vs)"
        using Cons Some Inr by (simp add: collect_optional_def)
      ultimately show ?thesis using Cons Some by auto
    qed
  qed
qed

lemma collect_optional_Inl:
  "collect_optional key field cs = Inl e \<longleftrightarrow>
     (cs = [] \<and> e = IndexError) \<or>
     (cs \<noteq> [] \<and> field (hd cs) \<noteq> None \<and> (\<exists>x\<in>set cs. field x = None) \<and> e = KeyError key)"
proof (cases cs)
  case Nil
  then show ?thesis by (auto simp: collect_optional_def)
next
  case (Cons c cs')
  show ?thesis
  proof (cases "field c")
    case None
    with Cons show ?thesis by (auto simp: collect_optional_def)
  next
    case (Some v)
    show ?thesis
    proof (cases "read_all key field cs")
      case (Inl e')
      then have "(\<exists>x\<in>set cs. field x = None) \<and> e' = KeyError key" by (simp add: read_all_Inl)
      moreover have "collect_optional key field cs = Inl e'"
        using Cons Some Inl by (simp add: collect_optional_def)
      ultimately show ?thesis using Cons Some by auto
    next
      case (Inr vs)
      then have vs: "\<forall>x\<in>set cs. field x \<noteq> None"
        by (simp add: read_all_Inr)
      moreover have "collect_optional key field cs = Inr (Some vs)"
        using Cons Some Inr by (simp add: collect_optional_def)
      ultimately show ?thesis using Cons Some by auto
    qed
  qed
qed

lemma build_features_Inr:
  "build_features lmap example cs = Inr f \<longleftrightarrow>
     (\<exists>l i am tt. InputExample.label example = Some l \<and> lmap l = Some i \<and>
        collect_optional ''attention_mask'' enc_attention_mask cs = Inr am \<and>
        collect_optional ''token_type_ids'' enc_token_type_ids cs = Inr tt \<and>
        f = \<lparr>example_id = InputExample.example_id example, input_ids = map enc_input_ids cs,
             attention_mask = am, token_type_ids = tt, label = Some i\<rparr>)"
  unfolding build_features_def
  by (auto split: option.splits sum.splits)

lemma convert_loop_Inr:
  "fst (convert_loop choices lmap examples features logged) = Inr out \<longleftrightarrow>
     (\<exists>gs. out = features @ gs \<and>
           list_all2 (\<lambda>example g. build_features lmap example (choices example) = Inr g) examples gs)"
proof (induction examples arbitrary: features logged)
  case Nil
  then show ?case by auto
next
  case (Cons example examples)
  show ?case
  proof (cases "build_features lmap example (choices example)")
    case (Inl e)
    then show ?thesis by (auto simp: Let_def list_all2_Cons1)
  next
    case (Inr f)
    then show ?thesis
      by (simp add: Let_def Cons.IH list_all2_Cons1) blast
  qed
qed

lemma evidence_convert_Inr:
  "fst (xfact_evidence_convert_examples_to_features examples label_list max_length tokenizer) = Inr features \<longleftrightarrow>
     list_all2 (\<lambda>example g. build_features (label_map label_list) example
                   (evidence_choices tokenizer max_length example) = Inr g) examples features"
  by (simp add: xfact_evidence_convert_examples_to_features_def convert_loop_Inr)

lemma claim_evidence_convert_Inr:
  "fst (xfact_claim_evidence_convert_examples_to_features examples label_list max_length tokenizer) = Inr features \<longleftrightarrow>
     list_all2 (\<lambda>example g. build_features (label_map label_list) example
                   (claim_evidence_choices tokenizer max_length example) = Inr g) examples features"
  by (simp add: xfact_claim_evidence_convert_examples_to_features_def convert_loop_Inr)

lemma build_features_shape:
  assumes "build_features lmap example cs = Inr f"
      and "\<forall>c\<in>set cs. length (enc_input_ids c) = n"
  shows "length (input_ids f) = length cs \<and> (\<forall>ids\<in>set (input_ids f). length ids = n)"
  using assms by (auto simp: build_features_Inr)

text \<open>
  C1. Under the tokenizing contract (every encoding has exactly \<open>max_length\<close> input
  ids), every \<open>InputFeatures\<close> that the evidence-pairing converter returns has as
  many input-id sequences as its example has evidences, every one that the
  claim-plus-evidence converter returns has one more, and each sequence has
  \<open>max_length\<close> entries.
\<close>

theorem feature_shapes:
  assumes contract:
    "\<forall>text_a text_b. length (enc_input_ids (tokenizer text_a text_b max_length)) = max_length"
  shows "(fst (xfact_evidence_convert_examples_to_features examples label_list max_length tokenizer)
            = Inr features \<longrightarrow>
          length features = length examples \<and>
          (\<forall>k<length examples.
             length (input_ids (features ! k)) = length (contexts (examples ! k)) \<and>
             (\<forall>ids\<in>set (input_ids (features ! k)). length ids = max_length))) \<and>
         (fst (xfact_claim_evidence_convert_examples_to_features examples label_list max_length tokenizer)
            = Inr features' \<longrightarrow>
          length features' = length examples \<and>
          (\<forall>k<length examples.
             length (input_ids (features' ! k)) = length (contexts (examples ! k)) + 1 \<and>
             (\<forall>ids\<in>set (input_ids (features' ! k)). length ids = max_length)))"
proof (intro conjI impI allI)
  assume r: "fst (xfact_evidence_convert_examples_to_features examples label_list max_length tokenizer)
            = Inr features"
  then have all: "list_all2 (\<lambda>example g. build_features (label_map label_list) example
                   (evidence_choices tokenizer max_length example) = Inr g) examples features"
    by (simp add: evidence_convert_Inr)
  then show "length features = length examples" by (simp add: list_all2_lengthD)
  fix k assume k: "k < length examples"
  have b: "build_features (label_map label_list) (examples ! k)
                   (evidence_choices tokenizer max_length (examples ! k)) = Inr (features ! k)"
    using list_all2_nthD [OF all k] by simp
  have "\<forall>c\<in>set (evidence_choices tokenizer max_length (examples ! k)). length (enc_input_ids c) = max_length"
    using contract by (auto simp: evidence_choices_def)
  from build_features_shape [OF b this]
  show "length (input_ids (features ! k)) = length (contexts (examples ! k))"
    and "\<forall>ids\<in>set (input_ids (features ! k)). length ids = max_length"
    by (simp_all add: evidence_choices_def)
next
  assume r: "fst (xfact_claim_evidence_convert_examples_to_features examples label_list max_length tokenizer)
            = Inr features'"
  then have all: "list_all2 (\<lambda>example g. build_features (label_map label_list) example
                   (claim_evidence_choices tokenizer max_length example) = Inr g) examples features'"
    by (simp add: claim_evidence_convert_Inr)
  then show "length features' = length examples" by (simp add: list_all2_lengthD)
  fix k assume k: "k < length examples"
  have b: "build_features (label_map label_list) (examples ! k)
                   (claim_evidence_choices tokenizer max_length (examples ! k)) = Inr (features' ! k)"
    using list_all2_nthD [OF all k] by simp
  have "\<forall>c\<in>set (claim_evidence_choices tokenizer max_length (examples ! k)). length (enc_input_ids c) = max_length"
    using contract by (auto simp: claim_evidence_choices_def)
  from build_features_shape [OF b this]
  show "length (input_ids (features' ! k)) = length (contexts (examples ! k)) + 1"
    and "\<forall>ids\<in>set (input_ids (features' ! k)). length ids = max_length"
    by (simp_all add: claim_evidence_choices_def)
qed

lemma demo_evidence_run:
  "xfact_evidence_convert_examples_to_features demo_examples demo_labels 3 demo_tokenizer
     = (Inr demo_evidence_features, 1)"
  by code_simp

lemma demo_claim_evidence_run:
  "xfact_claim_evidence_convert_examples_to_features demo_examples demo_labels 3 demo_tokenizer
     = (Inr demo_claim_evidence_features, 1)"
  by code_simp

lemma demo_tokenizer_pads:
  "length (enc_input_ids (demo_tokenizer text_a text_b max_length)) = max_length"
  by (simp add: demo_tokenizer_def Let_def)

theorem feature_shapes_witness:
  "(\<forall>text_a text_b. length (enc_input_ids (demo_tokenizer text_a text_b 3)) = 3) \<and>
   fst (xfact_evidence_convert_examples_to_features demo_examples demo_labels 3 demo_tokenizer)
     = Inr demo_evidence_features \<and>
   fst (xfact_claim_evidence_convert_examples_to_features demo_examples demo_labels 3 demo_tokenizer)
     = Inr demo_claim_evidence_features \<and>
   length demo_evidence_features = length demo_examples \<and>
   length (input_ids (demo_evidence_features ! 1)) = length (contexts (demo_examples ! 1)) \<and>
   list_all (\<lambda>ids. length ids = 3) (input_ids (demo_evidence_features ! 1)) \<and>
   length demo_claim_evidence_features = length demo_examples \<and>
   length (input_ids (demo_claim_evidence_features ! 1)) = length (contexts (demo_examples ! 1)) + 1 \<and>
   list_all (\<lambda>ids. length ids = 3) (input_ids (demo_claim_evidence_features ! 1))"
proof -
  have h: "\<forall>text_a text_b. length (enc_input_ids (demo_tokenizer text_a text_b 3)) = 3"
    by (simp add: demo_tokenizer_pads)
  have r1: "fst (xfact_evidence_convert_examples_to_features demo_examples demo_labels 3 demo_tokenizer)
     = Inr demo_evidence_features"
    by (simp add: demo_evidence_run)
  have r2: "fst (xfact_claim_evidence_convert_examples_to_features demo_examples demo_labels 3 demo_tokenizer)
     = Inr demo_claim_evidence_features"
    by (simp add: demo_claim_evidence_run)
  have k: "1 < length demo_examples" by (simp add: demo_examples_def)
  from feature_shapes [where tokenizer = demo_tokenizer and max_length = 3
      and examples = demo_examples and label_list = demo_labels
      and features = demo_evidence_features and features' = demo_claim_evidence_features]
    h r1 r2 k
  show ?thesis by (simp add: list_all_iff)
qed

section \<open>Rows, metadata and examples\<close>

lemma py_index_nat:
  "py_index xs (int k) = (if k < length xs then Inr (xs ! k) else Inl IndexError)"
  by (simp add: py_index_def)

lemma py_index_neg:
  "0 < k \<Longrightarrow> py_index xs (- int k) = (if k \<le> length xs then Inr (xs ! (length xs - k)) else Inl IndexError)"
  by (auto simp: py_index_def nat_diff_distrib' intro!: arg_cong [where f = "nth xs"])

lemma read_fields_window:
  "read_fields line (map (\<lambda>i. int k + int i) [0..<n]) =
     (if n = 0 \<or> k + n \<le> length line then Inr (take n (drop k line)) else Inl IndexError)"
proof (induction n arbitrary: k)
  case 0
  show ?case by simp
next
  case (Suc n)
  have split: "map (\<lambda>i. int k + int i) [0..<Suc n] = int k # map (\<lambda>i. int (Suc k) + int i) [0..<n]"
    by (simp add: upt_rec [of 0] map_Suc_upt [symmetric] del: upt_Suc)
  show ?case
  proof (cases "k < length line")
    case False
    then show ?thesis unfolding split by (simp add: py_index_nat)
  next
    case True
    then have hd: "take (Suc n) (drop k line) = line ! k # take n (drop (Suc k) line)"
      by (simp add: Cons_nth_drop_Suc [symmetric])
    have ih: "read_fields line (map (\<lambda>i. int (Suc k) + int i) [0..<n]) =
       (if n = 0 \<or> Suc k + n \<le> length line then Inr (take n (drop (Suc k) line))
        else Inl IndexError)"
      by (rule Suc.IH)
    show ?thesis unfolding split read_fields.simps ih py_index_nat hd using True
      by auto
  qed
qed

lemma get_metadata_closed:
  "get_metadata line =
     (if length line < 5 then Inl IndexError
      else Inr (''language : '' @ strip (line ! 0) @ '', site : '' @ strip (line ! 1) @
                '', claimant : '' @ strip (line ! (length line - 3)) @
                '', claim_date : '' @ strip (line ! (length line - 5)) @
                '', review_date: '' @ strip (line ! (length line - 4))))"
proof -
  have n3: "py_index line (- 3) = (if 3 \<le> length line then Inr (line ! (length line - 3)) else Inl IndexError)"
    using py_index_neg [of 3 line] by simp
  have n4: "py_index line (- 4) = (if 4 \<le> length line then Inr (line ! (length line - 4)) else Inl IndexError)"
    using py_index_neg [of 4 line] by simp
  have n5: "py_index line (- 5) = (if 5 \<le> length line then Inr (line ! (length line - 5)) else Inl IndexError)"
    using py_index_neg [of 5 line] by simp
  have p0: "py_index line 0 = (if 0 < length line then Inr (line ! 0) else Inl IndexError)"
    using py_index_nat [of line 0] by simp
  have p1: "py_index line 1 = (if 1 < length line then Inr (line ! 1) else Inl IndexError)"
    using py_index_nat [of line 1] by simp
  show ?thesis
    unfolding get_metadata_def n3 n4 n5 p0 p1 by (simp add: Let_def)
qed

lemma create_example_closed:
  "create_example self line =
     (if length line < required_columns self then Inl IndexError
      else Inr (take (num_evidences self) (drop 2 line), line ! (length line - 2),
                lower (last line), projr (get_metadata line)))"
proof -
  have n1: "py_index line (- 1) = (if 1 \<le> length line then Inr (line ! (length line - 1)) else Inl IndexError)"
    using py_index_neg [of 1 line] by simp
  have n2: "py_index line (- 2) = (if 2 \<le> length line then Inr (line ! (length line - 2)) else Inl IndexError)"
    using py_index_neg [of 2 line] by simp
  have rf: "read_fields line (map (\<lambda>i. 2 + int i) [0..<num_evidences self]) =
     (if num_evidences self = 0 \<or> 2 + num_evidences self \<le> length line
      then Inr (take (num_evidences self) (drop 2 line)) else Inl IndexError)"
    using read_fields_window [of line 2 "num_evidences self"] by simp
  have lst: "1 \<le> length line \<Longrightarrow> line ! (length line - Suc 0) = last line"
    by (cases line rule: rev_cases) (simp_all add: nth_append)
  show ?thesis
    unfolding create_example_def rf n1 n2 get_metadata_closed required_columns_def
    by (auto simp: lst)
qed

section \<open>The shuffle is a permutation\<close>

lemma shuffle_loop_mset:
  "i < length x \<or> i = 0 \<Longrightarrow> mset (shuffle_loop rng i x) = mset x"
proof (induction i arbitrary: x)
  case 0
  show ?case by simp
next
  case (Suc i)
  then have i: "Suc i < length x" by simp
  let ?j = "rng (Suc i) mod (Suc i + 1)"
  have "?j < Suc (Suc i)" by simp
  with i have j: "?j < length x" by linarith
  have "mset (x[Suc i := x ! ?j, ?j := x ! Suc i]) = mset x"
    using mset_swap [OF j i] by simp
  moreover have "i < length (x[Suc i := x ! ?j, ?j := x ! Suc i]) \<or> i = 0" using i by simp
  ultimately show ?case using Suc.IH [of "x[Suc i := x ! ?j, ?j := x ! Suc i]"]
    by (simp add: Let_def)
qed

lemma mset_shuffle: "mset (shuffle rng x) = mset x"
  unfolding shuffle_def by (rule shuffle_loop_mset) (cases x, simp_all)

lemma set_shuffle: "set (shuffle rng x) = set x"
  using mset_shuffle [of rng x] by (metis set_mset_mset)

lemma length_shuffle: "length (shuffle rng x) = length x"
  using mset_shuffle [of rng x] by (metis size_mset)

section \<open>The loops of the loaders\<close>

lemma data_rows_Nil [simp]: "data_rows [] = []"
  by (simp add: data_rows_def)

lemma data_rows_Cons:
  "data_rows ((i, line) # rest) = (if i \<noteq> 0 \<and> line \<noteq> [] then (i, line) # data_rows rest else data_rows rest)"
  by (simp add: data_rows_def)

lemma make_example_cong:
  "use_metadata a = use_metadata b \<Longrightarrow> make_example a i c = make_example b i c"
  by (simp add: make_example_def split: prod.splits)

lemma create_example_cong:
  "num_evidences a = num_evidences b \<Longrightarrow> create_example a line = create_example b line"
  by (simp add: create_example_def)

lemma built_cong:
  "use_metadata a = use_metadata b \<Longrightarrow> num_evidences a = num_evidences b \<Longrightarrow> built a = built b"
  by (rule ext) (simp add: built_def make_example_cong [of a b] create_example_cong [of a b])

lemma required_columns_cong:
  "num_evidences a = num_evidences b \<Longrightarrow> required_columns a = required_columns b"
  by (simp add: required_columns_def)

lemma create_example_Inr_iff:
  "(\<exists>created. create_example self line = Inr created) \<longleftrightarrow> required_columns self \<le> length line"
  by (auto simp: create_example_closed)

lemma create_example_label:
  "create_example self line = Inr created \<Longrightarrow> fst (snd (snd created)) = lower (last line)"
  by (auto simp: create_example_closed split: if_splits)

lemma note_label_fields:
  "note_label self source cls l = Inr self1 \<Longrightarrow>
     num_evidences self1 = num_evidences self \<and> use_metadata self1 = use_metadata self \<and>
     label_count self1 = label_count self \<and> sources self1 = sources self"
  by (auto simp: note_label_def split: option.splits if_splits sum.splits)

lemma count_label_fields:
  "count_label self source l = Inr self2 \<Longrightarrow>
     num_evidences self2 = num_evidences self \<and> use_metadata self2 = use_metadata self \<and>
     label_sets self2 = label_sets self \<and> sources self2 = sources self"
  by (auto simp: count_label_def split: option.splits)

lemma train_loop_Inr:
  "train_loop self source cls rows exs = Inr (exs', self') \<Longrightarrow>
     num_evidences self' = num_evidences self \<and> use_metadata self' = use_metadata self \<and>
     sources self' = sources self \<and>
     exs' = exs @ map (built self) (data_rows rows) \<and>
     (\<forall>row\<in>set (data_rows rows). required_columns self \<le> length (snd row))"
proof (induction rows arbitrary: self exs)
  case Nil
  then show ?case by simp
next
  case (Cons row rows)
  obtain i line where row: "row = (i, line)" by (cases row)
  show ?case
  proof (cases "i \<noteq> 0 \<and> line \<noteq> []")
    case False
    with Cons.prems row have "train_loop self source cls rows exs = Inr (exs', self')"
      by (auto split: if_splits)
    from Cons.IH [OF this] False row show ?thesis by (simp add: data_rows_Cons)
  next
    case True
    have step: "train_loop self source cls (row # rows) exs =
        (case create_example self line of Inl e \<Rightarrow> Inl e | Inr created \<Rightarrow>
        (case note_label self source cls (fst (snd (snd created))) of
           Inl e \<Rightarrow> Inl e | Inr self1 \<Rightarrow>
        (case count_label self1 source (fst (snd (snd created))) of
           Inl e \<Rightarrow> Inl e | Inr self2 \<Rightarrow>
           train_loop self2 source cls rows
             (exs @ [make_example self2 i created]))))"
      using True row by simp
    obtain created where c: "create_example self line = Inr created"
      using Cons.prems unfolding step by (cases "create_example self line") simp_all
    obtain self1 where n: "note_label self source cls (fst (snd (snd created))) = Inr self1"
      using Cons.prems unfolding step c sum.case
      by (cases "note_label self source cls (fst (snd (snd created)))") simp_all
    obtain self2 where k: "count_label self1 source (fst (snd (snd created))) = Inr self2"
      using Cons.prems unfolding step c n sum.case
      by (cases "count_label self1 source (fst (snd (snd created)))") simp_all
    have r: "train_loop self2 source cls rows (exs @ [make_example self2 i created]) = Inr (exs', self')"
      using Cons.prems unfolding step c n k sum.case by simp
    from note_label_fields [OF n] count_label_fields [OF k]
    have f: "num_evidences self2 = num_evidences self" "use_metadata self2 = use_metadata self"
      "sources self2 = sources self"
      by simp_all
    have b: "built self2 = built self" by (rule built_cong) (simp_all add: f)
    have q: "required_columns self2 = required_columns self"
      by (rule required_columns_cong) (simp add: f)
    have m: "make_example self2 i created = built self (i, line)"
      using c f by (simp add: built_def make_example_cong [of self2 self])
    have w: "required_columns self \<le> length line"
      using c create_example_Inr_iff [of self line] by blast
    from Cons.IH [OF r] show ?thesis
      unfolding b q m using True row f w by (simp add: data_rows_Cons)
  qed
qed

lemma filtered_loop_Inr:
  "filtered_loop self source rows exs sk = Inr (exs', sk') \<Longrightarrow>
     exs' = exs @ map (built self) (filter (\<lambda>row. row_label row \<in> vocabulary self source) (data_rows rows)) \<and>
     sk' = sk + length (filter (\<lambda>row. row_label row \<notin> vocabulary self source) (data_rows rows)) \<and>
     (\<forall>row\<in>set (data_rows rows). required_columns self \<le> length (snd row)) \<and>
     (data_rows rows \<noteq> [] \<longrightarrow> label_sets self source \<noteq> None)"
proof (induction rows arbitrary: exs sk)
  case Nil
  then show ?case by simp
next
  case (Cons row rows)
  obtain i line where row: "row = (i, line)" by (cases row)
  show ?case
  proof (cases "i \<noteq> 0 \<and> line \<noteq> []")
    case False
    with Cons.prems row have "filtered_loop self source rows exs sk = Inr (exs', sk')"
      by (auto split: if_splits)
    from Cons.IH [OF this] False row show ?thesis by (simp add: data_rows_Cons)
  next
    case True
    from Cons.prems row True obtain created where
      c: "create_example self line = Inr created"
      by (cases "create_example self line") auto
    from Cons.prems row True c obtain c where
      l: "label_sets self source = Some c"
      by (cases "label_sets self source") auto
    have lab: "fst (snd (snd created)) = row_label (i, line)"
      using create_example_label [OF c] by (simp add: row_label_def)
    have v: "vocabulary self source = labels_of c" using l by (simp add: vocabulary_def)
    have w: "required_columns self \<le> length line"
      using c create_example_Inr_iff [of self line] by blast
    have m: "make_example self i created = built self (i, line)"
      using c by (simp add: built_def)
    show ?thesis
    proof (cases "row_label (i, line) \<in> labels_of c")
      case False
      with Cons.prems row True c l lab
      have "filtered_loop self source rows exs (sk + 1) = Inr (exs', sk')" by simp
      from Cons.IH [OF this] show ?thesis
        using True row False v w l by (simp add: data_rows_Cons)
    next
      case yes: True
      with Cons.prems row True c l lab m
      have "filtered_loop self source rows (exs @ [built self (i, line)]) sk = Inr (exs', sk')" by simp
      from Cons.IH [OF this] show ?thesis
        using True row yes v w l by (simp add: data_rows_Cons)
    qed
  qed
qed

lemma filtered_loop_total:
  assumes "label_sets self source \<noteq> None"
      and "\<forall>row\<in>set (data_rows rows). required_columns self \<le> length (snd row)"
  shows "\<exists>r. filtered_loop self source rows exs sk = Inr r"
  using assms(2)
proof (induction rows arbitrary: exs sk)
  case Nil
  show ?case by simp
next
  case (Cons row rows)
  obtain i line where row: "row = (i, line)" by (cases row)
  from assms(1) obtain c where l: "label_sets self source = Some c" by auto
  have rest: "\<forall>row\<in>set (data_rows rows). required_columns self \<le> length (snd row)"
    using Cons.prems row by (simp add: data_rows_Cons split: if_splits)
  show ?case
  proof (cases "i \<noteq> 0 \<and> line \<noteq> []")
    case False
    then show ?thesis using Cons.IH [OF rest] row by auto
  next
    case True
    with Cons.prems row have "required_columns self \<le> length line" by (simp add: data_rows_Cons)
    then obtain created where c: "create_example self line = Inr created"
      using create_example_Inr_iff [of self line] by blast
    show ?thesis using Cons.IH [OF rest] row True c l by simp
  qed
qed

text \<open>
  C10, as stated, fails: the language and the site are read from the first two fields of
  the row, not from trailing positions. Two rows that agree on every field but the first
  (so on the last nine) get different metadata strings.
\<close>

theorem metadata_not_only_trailing:
  "drop 1 meta_row_en = drop 1 meta_row_fr \<and>
   get_metadata meta_row_en =
     Inr ''language : en, site : site.org, claimant : Bob, claim_date : 20200115, review_date: 20200120'' \<and>
   get_metadata meta_row_fr =
     Inr ''language : fr, site : site.org, claimant : Bob, claim_date : 20200115, review_date: 20200120'' \<and>
   get_metadata meta_row_en \<noteq> get_metadata meta_row_fr"
  by code_simp

text \<open>
  C10, amended. For a row of at least five fields, the metadata string is built from the
  language and the site, read from the first two positions (indices 0 and 1), and the
  claimant, the claim date and the review date, read from trailing positions (third,
  fifth and fourth from the end), each stripped of surrounding white space; two rows
  that agree on these five fields have the same metadata string.
\<close>

theorem metadata_fields:
  assumes "5 \<le> length line" and "5 \<le> length line'"
      and "line ! 0 = line' ! 0" and "line ! 1 = line' ! 1"
      and "line ! (length line - 3) = line' ! (length line' - 3)"
      and "line ! (length line - 4) = line' ! (length line' - 4)"
      and "line ! (length line - 5) = line' ! (length line' - 5)"
  shows "get_metadata line = get_metadata line' \<and>
         get_metadata line =
           Inr (''language : '' @ strip (line ! 0) @ '', site : '' @ strip (line ! 1) @
                '', claimant : '' @ strip (line ! (length line - 3)) @
                '', claim_date : '' @ strip (line ! (length line - 5)) @
                '', review_date: '' @ strip (line ! (length line - 4)))"
  using assms by (simp add: get_metadata_closed)

theorem metadata_fields_witness:
  "5 \<le> length meta_row_en \<and> 5 \<le> length meta_row_short \<and>
   meta_row_en ! 0 = meta_row_short ! 0 \<and> meta_row_en ! 1 = meta_row_short ! 1 \<and>
   meta_row_en ! (length meta_row_en - 3) = meta_row_short ! (length meta_row_short - 3) \<and>
   meta_row_en ! (length meta_row_en - 4) = meta_row_short ! (length meta_row_short - 4) \<and>
   meta_row_en ! (length meta_row_en - 5) = meta_row_short ! (length meta_row_short - 5) \<and>
   get_metadata meta_row_en = get_metadata meta_row_short \<and>
   get_metadata meta_row_en =
     Inr ''language : en, site : site.org, claimant : Bob, claim_date : 20200115, review_date: 20200120''"
proof -
  have h: "5 \<le> length meta_row_en" "5 \<le> length meta_row_short"
    "meta_row_en ! 0 = meta_row_short ! 0" "meta_row_en ! 1 = meta_row_short ! 1"
    "meta_row_en ! (length meta_row_en - 3) = meta_row_short ! (length meta_row_short - 3)"
    "meta_row_en ! (length meta_row_en - 4) = meta_row_short ! (length meta_row_short - 4)"
    "meta_row_en ! (length meta_row_en - 5) = meta_row_short ! (length meta_row_short - 5)"
    by (simp_all add: meta_row_en_def meta_row_short_def)
  have e: "get_metadata meta_row_en =
     Inr ''language : en, site : site.org, claimant : Bob, claim_date : 20200115, review_date: 20200120''"
    by code_simp
  from metadata_fields [OF h] have "get_metadata meta_row_en = get_metadata meta_row_short"
    by (rule conjunct1)
  with h e show ?thesis by (intro conjI)
qed

lemma built_fields:
  assumes "required_columns self \<le> length (snd row)"
  shows "InputExample.example_id (built self row) = ''train-'' @ str_nat (fst row)"
    and "contexts (built self row) = take (num_evidences self) (drop 2 (snd row))"
    and "length (contexts (built self row)) = num_evidences self"
    and "InputExample.label (built self row) = Some (row_label row)"
  using assms
  by (simp_all add: built_def create_example_closed make_example_def row_label_def required_columns_def)

lemma built_holds_invariant:
  assumes "row \<in> set (data_rows (enumerate_rows lines))"
      and "required_columns self \<le> length (snd row)"
  shows "holds_invariant self lines (built self row)"
  unfolding holds_invariant_def list_ex_iff
  using assms built_fields [OF assms(2)] by (auto simp: row_label_def)

lemma read_tsv_Inr: "read_tsv fs path = Inr lines \<longleftrightarrow> fs path = Some lines"
  by (simp add: read_tsv_def split: option.splits)

lemma get_train_examples_Inr:
  assumes "get_train_examples fs rng self data_dir source cls = Inr (examples, self')"
  shows "\<exists>lines exs self0.
           fs (path_join data_dir (''train.'' @ source @ ''.tsv'')) = Some lines \<and>
           self0 = (if label_sets self source = None
                    then self\<lparr>label_sets := (label_sets self)(source \<mapsto> Label_set {}),
                              label_count := (label_count self)(source \<mapsto> Map.empty)\<rparr>
                    else self) \<and>
           train_loop self0 source cls (enumerate_rows lines) [] = Inr (exs, self') \<and>
           examples = shuffle rng exs"
proof -
  let ?path = "path_join data_dir (''train.'' @ source @ ''.tsv'')"
  let ?self0 = "(if label_sets self source = None
                    then self\<lparr>label_sets := (label_sets self)(source \<mapsto> Label_set {}),
                              label_count := (label_count self)(source \<mapsto> Map.empty)\<rparr>
                    else self)"
  from assms obtain lines where r: "read_tsv fs ?path = Inr lines"
    unfolding get_train_examples_def Let_def by (cases "read_tsv fs ?path") simp_all
  from assms r obtain res where t: "train_loop ?self0 source cls (enumerate_rows lines) [] = Inr res"
    unfolding get_train_examples_def Let_def
    by (cases "train_loop ?self0 source cls (enumerate_rows lines) []") simp_all
  obtain exs s' where res: "res = (exs, s')" by (cases res)
  from assms r t res have "examples = shuffle rng exs" "self' = s'"
    unfolding get_train_examples_def Let_def by simp_all
  with r t res show ?thesis by (auto simp: read_tsv_Inr)
qed

lemma train_examples_invariant:
  assumes "get_train_examples fs rng self data_dir source cls = Inr (examples, self')"
  shows "\<exists>lines. fs (path_join data_dir (''train.'' @ source @ ''.tsv'')) = Some lines \<and>
           (\<forall>ex\<in>set examples. holds_invariant self lines ex)"
proof -
  from get_train_examples_Inr [OF assms] obtain lines exs self0 where
    f: "fs (path_join data_dir (''train.'' @ source @ ''.tsv'')) = Some lines" and
    s: "self0 = (if label_sets self source = None
                    then self\<lparr>label_sets := (label_sets self)(source \<mapsto> Label_set {}),
                              label_count := (label_count self)(source \<mapsto> Map.empty)\<rparr>
                    else self)" and
    t: "train_loop self0 source cls (enumerate_rows lines) [] = Inr (exs, self')" and
    e: "examples = shuffle rng exs" by blast
  have ne: "num_evidences self0 = num_evidences self" and um: "use_metadata self0 = use_metadata self"
    using s by simp_all
  have b: "built self0 = built self" by (rule built_cong) (simp_all add: ne um)
  have q: "required_columns self0 = required_columns self" by (rule required_columns_cong) (simp add: ne)
  from train_loop_Inr [OF t] have
    exs: "exs = map (built self) (data_rows (enumerate_rows lines))" and
    w: "\<forall>row\<in>set (data_rows (enumerate_rows lines)). required_columns self \<le> length (snd row)"
    unfolding b q by simp_all
  have "\<forall>ex\<in>set examples. holds_invariant self lines ex"
    unfolding e set_shuffle exs using w by (auto intro: built_holds_invariant)
  with f show ?thesis by blast
qed

lemma filtered_examples_invariant:
  assumes "filtered_loop self source (enumerate_rows lines) [] 0 = Inr (examples, skipped)"
  shows "\<forall>ex\<in>set examples. holds_invariant self lines ex"
proof -
  from filtered_loop_Inr [OF assms] have
    exs: "examples = map (built self) (filter (\<lambda>row. row_label row \<in> vocabulary self source)
            (data_rows (enumerate_rows lines)))" and
    w: "\<forall>row\<in>set (data_rows (enumerate_rows lines)). required_columns self \<le> length (snd row)"
    by simp_all
  show ?thesis unfolding exs using w by (auto intro: built_holds_invariant)
qed

lemma get_dev_examples_Inr:
  "get_dev_examples fs self data_dir source filename = Inr r \<longleftrightarrow>
     (\<exists>lines. fs (path_join data_dir
              (case filename of None \<Rightarrow> ''dev.'' @ source @ ''.tsv'' | Some name \<Rightarrow> name)) = Some lines \<and>
        filtered_loop self source (enumerate_rows lines) [] 0 = Inr r)"
  unfolding get_dev_examples_def read_tsv_def by (auto split: option.splits)

lemma get_test_examples_Inr:
  "get_test_examples fs self data_dir source = Inr r \<longleftrightarrow>
     (\<exists>lines. fs (path_join data_dir (''test.'' @ source @ ''.tsv'')) = Some lines \<and>
        filtered_loop self source (enumerate_rows lines) [] 0 = Inr r)"
  unfolding get_test_examples_def read_tsv_def by (auto split: option.splits)

text \<open>
  C8. For a row with at least the required number of columns, \<open>create_example\<close>
  returns the \<open>num_evidences\<close> consecutive fields from index 2 as evidences and the last
  field lower-cased as label. Every example that the train, dev and test loaders return
  comes from a row of the file read (not the header, not empty) and satisfies the
  invariant for that row: its contexts are those fields, \<open>num_evidences\<close> of them, and
  its label is the row's last field lower-cased.
\<close>

theorem example_invariant:
  "(required_columns self \<le> length line \<longrightarrow>
      (\<exists>claim_text metadata. create_example self line =
         Inr (take (num_evidences self) (drop 2 line), claim_text, lower (last line), metadata)) \<and>
      length (take (num_evidences self) (drop 2 line)) = num_evidences self) \<and>
   (get_train_examples fs rng self data_dir source create_label_set = Inr (train_examples, self') \<longrightarrow>
      (\<exists>lines. fs (path_join data_dir (''train.'' @ source @ ''.tsv'')) = Some lines \<and>
         (\<forall>ex\<in>set train_examples. holds_invariant self lines ex))) \<and>
   (get_dev_examples fs self data_dir source filename = Inr (dev_examples, dev_skipped) \<longrightarrow>
      (\<exists>lines. fs (path_join data_dir
              (case filename of None \<Rightarrow> ''dev.'' @ source @ ''.tsv'' | Some name \<Rightarrow> name)) = Some lines \<and>
         (\<forall>ex\<in>set dev_examples. holds_invariant self lines ex))) \<and>
   (get_test_examples fs self data_dir source = Inr (test_examples, test_skipped) \<longrightarrow>
      (\<exists>lines. fs (path_join data_dir (''test.'' @ source @ ''.tsv'')) = Some lines \<and>
         (\<forall>ex\<in>set test_examples. holds_invariant self lines ex)))"
proof (intro conjI impI)
  assume w: "required_columns self \<le> length line"
  then show "\<exists>claim_text metadata. create_example self line =
         Inr (take (num_evidences self) (drop 2 line), claim_text, lower (last line), metadata)"
    by (simp add: create_example_closed)
  from w show "length (take (num_evidences self) (drop 2 line)) = num_evidences self"
    by (simp add: required_columns_def)
next
  assume "get_train_examples fs rng self data_dir source create_label_set = Inr (train_examples, self')"
  then show "\<exists>lines. fs (path_join data_dir (''train.'' @ source @ ''.tsv'')) = Some lines \<and>
         (\<forall>ex\<in>set train_examples. holds_invariant self lines ex)"
    by (rule train_examples_invariant)
next
  assume "get_dev_examples fs self data_dir source filename = Inr (dev_examples, dev_skipped)"
  then show "\<exists>lines. fs (path_join data_dir
              (case filename of None \<Rightarrow> ''dev.'' @ source @ ''.tsv'' | Some name \<Rightarrow> name)) = Some lines \<and>
         (\<forall>ex\<in>set dev_examples. holds_invariant self lines ex)"
    unfolding get_dev_examples_Inr using filtered_examples_invariant by blast
next
  assume "get_test_examples fs self data_dir source = Inr (test_examples, test_skipped)"
  then show "\<exists>lines. fs (path_join data_dir (''test.'' @ source @ ''.tsv'')) = Some lines \<and>
         (\<forall>ex\<in>set test_examples. holds_invariant self lines ex)"
    unfolding get_test_examples_Inr using filtered_examples_invariant by blast
qed

lemma built_in_kept_iff:
  assumes w: "\<forall>row\<in>set rows. required_columns self \<le> length (snd row)"
      and r: "row \<in> set rows"
  shows "built self row \<in> set (map (built self) (filter (\<lambda>row. row_label row \<in> V) rows))
           \<longleftrightarrow> row_label row \<in> V"
proof
  assume "row_label row \<in> V"
  with r show "built self row \<in> set (map (built self) (filter (\<lambda>row. row_label row \<in> V) rows))"
    by auto
next
  assume "built self row \<in> set (map (built self) (filter (\<lambda>row. row_label row \<in> V) rows))"
  then obtain row' where r': "row' \<in> set rows" "row_label row' \<in> V" "built self row' = built self row"
    by auto
  have "InputExample.label (built self row) = Some (row_label row)"
    using w r built_fields(4) [of self row] by blast
  moreover have "InputExample.label (built self row') = Some (row_label row')"
    using w r'(1) built_fields(4) [of self row'] by blast
  ultimately have "row_label row = row_label row'" using r'(3) by simp
  with r'(2) show "row_label row \<in> V" by simp
qed

lemma filtered_loop_result:
  assumes known: "label_sets self source = Some c"
      and wide: "\<forall>row\<in>set (data_rows rows). required_columns self \<le> length (snd row)"
  shows "filtered_loop self source rows [] 0 =
           Inr (map (built self) (filter (\<lambda>row. row_label row \<in> labels_of c) (data_rows rows)),
                length (filter (\<lambda>row. row_label row \<notin> labels_of c) (data_rows rows)))"
proof -
  from known have "label_sets self source \<noteq> None" by simp
  from filtered_loop_total [OF this wide, of "[]" 0]
  obtain r where r: "filtered_loop self source rows [] 0 = Inr r" by blast
  obtain exs sk where p: "r = (exs, sk)" by (cases r)
  have v: "vocabulary self source = labels_of c" using known by (simp add: vocabulary_def)
  from filtered_loop_Inr [OF r [unfolded p]] show ?thesis
    unfolding r p v by simp
qed

lemma length_filter_split:
  "length (filter P xs) + length (filter (\<lambda>x. \<not> P x) xs) = length xs"
  by (induction xs) auto

text \<open>
  C2. For a source with a label set, a readable dev (or test) file and rows wide enough
  to yield an example: \<open>get_dev_examples\<close> (\<open>get_test_examples\<close>) returns, never
  raises; the list returned holds, in order, the examples of exactly the rows whose
  lower-cased label is in the source's label set, so the example of a row is in the list
  if and only if its label is in the set; the skipped count is the number of the other
  rows, one for each, and kept and skipped add up to the number of rows.
\<close>

theorem filtered_scan:
  assumes known: "label_sets self source = Some c"
  shows "(fs (path_join data_dir
              (case filename of None \<Rightarrow> ''dev.'' @ source @ ''.tsv'' | Some name \<Rightarrow> name)) = Some lines \<and>
          (\<forall>row\<in>set (data_rows (enumerate_rows lines)). required_columns self \<le> length (snd row)) \<longrightarrow>
          (\<exists>examples skipped.
             get_dev_examples fs self data_dir source filename = Inr (examples, skipped) \<and>
             examples = map (built self)
               (filter (\<lambda>row. row_label row \<in> labels_of c) (data_rows (enumerate_rows lines))) \<and>
             (\<forall>row\<in>set (data_rows (enumerate_rows lines)).
                built self row \<in> set examples \<longleftrightarrow> row_label row \<in> labels_of c) \<and>
             skipped = length
               (filter (\<lambda>row. row_label row \<notin> labels_of c) (data_rows (enumerate_rows lines))) \<and>
             length examples + skipped = length (data_rows (enumerate_rows lines)))) \<and>
         (fs (path_join data_dir (''test.'' @ source @ ''.tsv'')) = Some lines' \<and>
          (\<forall>row\<in>set (data_rows (enumerate_rows lines')). required_columns self \<le> length (snd row)) \<longrightarrow>
          (\<exists>examples skipped.
             get_test_examples fs self data_dir source = Inr (examples, skipped) \<and>
             examples = map (built self)
               (filter (\<lambda>row. row_label row \<in> labels_of c) (data_rows (enumerate_rows lines'))) \<and>
             (\<forall>row\<in>set (data_rows (enumerate_rows lines')).
                built self row \<in> set examples \<longleftrightarrow> row_label row \<in> labels_of c) \<and>
             skipped = length
               (filter (\<lambda>row. row_label row \<notin> labels_of c) (data_rows (enumerate_rows lines'))) \<and>
             length examples + skipped = length (data_rows (enumerate_rows lines'))))"
proof (intro conjI impI)
  assume a: "fs (path_join data_dir
              (case filename of None \<Rightarrow> ''dev.'' @ source @ ''.tsv'' | Some name \<Rightarrow> name)) = Some lines \<and>
          (\<forall>row\<in>set (data_rows (enumerate_rows lines)). required_columns self \<le> length (snd row))"
  let ?rows = "data_rows (enumerate_rows lines)"
  let ?kept = "map (built self) (filter (\<lambda>row. row_label row \<in> labels_of c) ?rows)"
  let ?skipped = "length (filter (\<lambda>row. row_label row \<notin> labels_of c) ?rows)"
  from a have w: "\<forall>row\<in>set ?rows. required_columns self \<le> length (snd row)" by simp
  have run: "get_dev_examples fs self data_dir source filename = Inr (?kept, ?skipped)"
    unfolding get_dev_examples_Inr using a filtered_loop_result [OF known w] by blast
  have iff: "\<forall>row\<in>set ?rows. built self row \<in> set ?kept \<longleftrightarrow> row_label row \<in> labels_of c"
    using built_in_kept_iff [OF w] by blast
  have total: "length ?kept + ?skipped = length ?rows"
    using length_filter_split [of "\<lambda>row. row_label row \<in> labels_of c" ?rows] by simp
  from run iff total
  show "\<exists>examples skipped.
             get_dev_examples fs self data_dir source filename = Inr (examples, skipped) \<and>
             examples = ?kept \<and>
             (\<forall>row\<in>set ?rows. built self row \<in> set examples \<longleftrightarrow> row_label row \<in> labels_of c) \<and>
             skipped = ?skipped \<and>
             length examples + skipped = length ?rows"
    by blast
next
  assume a: "fs (path_join data_dir (''test.'' @ source @ ''.tsv'')) = Some lines' \<and>
          (\<forall>row\<in>set (data_rows (enumerate_rows lines')). required_columns self \<le> length (snd row))"
  let ?rows = "data_rows (enumerate_rows lines')"
  let ?kept = "map (built self) (filter (\<lambda>row. row_label row \<in> labels_of c) ?rows)"
  let ?skipped = "length (filter (\<lambda>row. row_label row \<notin> labels_of c) ?rows)"
  from a have w: "\<forall>row\<in>set ?rows. required_columns self \<le> length (snd row)" by simp
  have run: "get_test_examples fs self data_dir source = Inr (?kept, ?skipped)"
    unfolding get_test_examples_Inr using a filtered_loop_result [OF known w] by blast
  have iff: "\<forall>row\<in>set ?rows. built self row \<in> set ?kept \<longleftrightarrow> row_label row \<in> labels_of c"
    using built_in_kept_iff [OF w] by blast
  have total: "length ?kept + ?skipped = length ?rows"
    using length_filter_split [of "\<lambda>row. row_label row \<in> labels_of c" ?rows] by simp
  from run iff total
  show "\<exists>examples skipped.
             get_test_examples fs self data_dir source = Inr (examples, skipped) \<and>
             examples = ?kept \<and>
             (\<forall>row\<in>set ?rows. built self row \<in> set examples \<longleftrightarrow> row_label row \<in> labels_of c) \<and>
             skipped = ?skipped \<and>
             length examples + skipped = length ?rows"
    by blast
qed

section \<open>The training scan and the label sets\<close>

lemma note_label_True:
  "label_sets self source = Some (Label_set S) \<Longrightarrow>
   note_label self source True l =
     Inr (self\<lparr>label_sets := (label_sets self)(source \<mapsto> Label_set (insert l S))\<rparr>)"
  by (simp add: note_label_def)


lemma count_label_Some:
  "label_count self source = Some counts \<Longrightarrow>
   \<exists>counts'. count_label self source l = Inr (self\<lparr>label_count := (label_count self)(source \<mapsto> counts')\<rparr>)"
  by (rule exI [where x = "counts(l \<mapsto> (case counts l of None \<Rightarrow> 0 | Some n \<Rightarrow> n) + 1)"])
     (simp add: count_label_def)

lemma train_loop_skip:
  "i = 0 \<or> line = [] \<Longrightarrow>
   train_loop self source cls ((i, line) # rows) exs = train_loop self source cls rows exs"
  by auto

lemma train_loop_row:
  assumes "i \<noteq> 0" "line \<noteq> []" "required_columns self \<le> length line"
  shows "\<exists>created. create_example self line = Inr created \<and>
           fst (snd (snd created)) = row_label (i, line) \<and>
           make_example self i created = built self (i, line) \<and>
           train_loop self source cls ((i, line) # rows) exs =
             (case note_label self source cls (row_label (i, line)) of
                Inl e \<Rightarrow> Inl e
              | Inr self1 \<Rightarrow>
                 (case count_label self1 source (row_label (i, line)) of
                    Inl e \<Rightarrow> Inl e
                  | Inr self2 \<Rightarrow>
                      train_loop self2 source cls rows (exs @ [make_example self2 i created])))"
proof -
  from assms(3) obtain created where c: "create_example self line = Inr created"
    using create_example_Inr_iff [of self line] by blast
  have l: "fst (snd (snd created)) = row_label (i, line)"
    using create_example_label [OF c] by (simp add: row_label_def)
  have m: "make_example self i created = built self (i, line)"
    using c by (simp add: built_def)
  have "train_loop self source cls ((i, line) # rows) exs =
             (case note_label self source cls (row_label (i, line)) of
                Inl e \<Rightarrow> Inl e
              | Inr self1 \<Rightarrow>
                 (case count_label self1 source (row_label (i, line)) of
                    Inl e \<Rightarrow> Inl e
                  | Inr self2 \<Rightarrow>
                      train_loop self2 source cls rows (exs @ [make_example self2 i created])))"
    using assms(1,2) c by (simp add: l cong: sum.case_cong)
  with c l m show ?thesis by blast
qed


lemma train_loop_build:
  assumes "label_sets self source = Some (Label_set S)"
      and "label_count self source \<noteq> None"
      and "\<forall>row\<in>set (data_rows rows). required_columns self \<le> length (snd row)"
  shows "\<exists>exs' self'. train_loop self source True rows exs = Inr (exs', self') \<and>
           label_sets self' = (label_sets self)(source \<mapsto> Label_set (S \<union> row_label ` set (data_rows rows))) \<and>
           (\<forall>s. s \<noteq> source \<longrightarrow> label_count self' s = label_count self s) \<and>
           label_count self' source \<noteq> None"
  using assms
proof (induction rows arbitrary: self S exs)
  case Nil
  then show ?case by (auto simp: fun_eq_iff)
next
  case (Cons row rows)
  obtain i line where row: "row = (i, line)" by (cases row)
  show ?case
  proof (cases "i \<noteq> 0 \<and> line \<noteq> []")
    case False
    then have skip: "train_loop self source True (row # rows) exs = train_loop self source True rows exs"
      and d: "data_rows (row # rows) = data_rows rows"
      using row by (auto simp: data_rows_Cons)
    from Cons.prems(3) have "\<forall>row\<in>set (data_rows rows). required_columns self \<le> length (snd row)"
      unfolding d .
    from Cons.IH [OF Cons.prems(1,2) this, of exs] show ?thesis unfolding skip d .
  next
    case True
    then have d: "data_rows (row # rows) = (i, line) # data_rows rows"
      using row by (simp add: data_rows_Cons)
    from Cons.prems(3) have w: "required_columns self \<le> length line"
      and wr: "\<forall>row\<in>set (data_rows rows). required_columns self \<le> length (snd row)"
      unfolding d by simp_all
    from train_loop_row [of i line self source True rows exs] True w
    obtain created where
      step: "train_loop self source True ((i, line) # rows) exs =
             (case note_label self source True (row_label (i, line)) of
                Inl e \<Rightarrow> Inl e
              | Inr self1 \<Rightarrow>
                 (case count_label self1 source (row_label (i, line)) of
                    Inl e \<Rightarrow> Inl e
                  | Inr self2 \<Rightarrow>
                      train_loop self2 source True rows (exs @ [make_example self2 i created])))"
      by blast
    let ?l = "row_label (i, line)"
    let ?self1 = "self\<lparr>label_sets := (label_sets self)(source \<mapsto> Label_set (insert ?l S))\<rparr>"
    from Cons.prems(2) obtain counts where cs: "label_count ?self1 source = Some counts" by auto
    from count_label_Some [OF cs, of ?l] obtain counts' where
      k: "count_label ?self1 source ?l =
            Inr (?self1\<lparr>label_count := (label_count ?self1)(source \<mapsto> counts')\<rparr>)" by blast
    let ?self2 = "?self1\<lparr>label_count := (label_count ?self1)(source \<mapsto> counts')\<rparr>"
    have step': "train_loop self source True (row # rows) exs =
                   train_loop ?self2 source True rows (exs @ [make_example ?self2 i created])"
      unfolding row step note_label_True [OF Cons.prems(1)] using k by simp
    have p1: "label_sets ?self2 source = Some (Label_set (insert ?l S))" by simp
    have p2: "label_count ?self2 source \<noteq> None" by simp
    have q: "required_columns ?self2 = required_columns self"
      by (rule required_columns_cong) simp
    have p3: "\<forall>row\<in>set (data_rows rows). required_columns ?self2 \<le> length (snd row)"
      unfolding q by (rule wr)
    from Cons.IH [OF p1 p2 p3, of "exs @ [make_example ?self2 i created]"]
    obtain exs' self' where
      r: "train_loop ?self2 source True rows (exs @ [make_example ?self2 i created]) = Inr (exs', self')" and
      ls: "label_sets self' = (label_sets ?self2)(source \<mapsto> Label_set (insert ?l S \<union> row_label ` set (data_rows rows)))" and
      lc: "\<forall>s. s \<noteq> source \<longrightarrow> label_count self' s = label_count ?self2 s" and
      lc': "label_count self' source \<noteq> None"
      by blast
    have "label_sets self' = (label_sets self)(source \<mapsto> Label_set (S \<union> row_label ` set (data_rows (row # rows))))"
      unfolding ls d by (auto simp: fun_eq_iff)
    moreover have "\<forall>s. s \<noteq> source \<longrightarrow> label_count self' s = label_count self s"
      using lc by simp
    ultimately show ?thesis unfolding step' using r lc' by blast
  qed
qed

lemma get_train_examples_unfold:
  assumes "read_tsv fs (path_join data_dir (''train.'' @ source @ ''.tsv'')) = Inr lines"
  shows "get_train_examples fs rng self data_dir source cls =
           (case train_loop
                   (if label_sets self source = None
                    then self\<lparr>label_sets := (label_sets self)(source \<mapsto> Label_set {}),
                              label_count := (label_count self)(source \<mapsto> Map.empty)\<rparr>
                    else self) source cls (enumerate_rows lines) [] of
              Inl e \<Rightarrow> Inl e
            | Inr (examples, self') \<Rightarrow> Inr (shuffle rng examples, self'))"
  using assms by (simp add: get_train_examples_def Let_def)

lemma get_train_examples_build:
  assumes rd: "read_tsv fs (path_join data_dir (''train.'' @ source @ ''.tsv'')) = Inr lines"
      and wide: "\<forall>row\<in>set (data_rows (enumerate_rows lines)). required_columns self \<le> length (snd row)"
      and building: "label_sets self source = None \<or>
                     (\<exists>S. label_sets self source = Some (Label_set S)) \<and> label_count self source \<noteq> None"
  shows "\<exists>examples self'.
           get_train_examples fs rng self data_dir source True = Inr (examples, self') \<and>
           length examples = length (data_rows (enumerate_rows lines)) \<and>
           label_sets self' = (label_sets self)(source \<mapsto>
             Label_set (vocabulary self source \<union> row_label ` set (data_rows (enumerate_rows lines)))) \<and>
           (\<forall>s. s \<noteq> source \<longrightarrow> label_count self' s = label_count self s) \<and>
           label_count self' source \<noteq> None"
proof -
  let ?self0 = "(if label_sets self source = None
                    then self\<lparr>label_sets := (label_sets self)(source \<mapsto> Label_set {}),
                              label_count := (label_count self)(source \<mapsto> Map.empty)\<rparr>
                    else self)"
  let ?rows = "enumerate_rows lines"
  have p1: "label_sets ?self0 source = Some (Label_set (vocabulary self source))"
    using building by (auto simp: vocabulary_def)
  have p2: "label_count ?self0 source \<noteq> None" using building by auto
  have q: "required_columns ?self0 = required_columns self"
    by (rule required_columns_cong) simp
  have p3: "\<forall>row\<in>set (data_rows ?rows). required_columns ?self0 \<le> length (snd row)"
    unfolding q by (rule wide)
  from train_loop_build [OF p1 p2 p3, of "[]"] obtain exs self' where
    t: "train_loop ?self0 source True ?rows [] = Inr (exs, self')" and
    ls: "label_sets self' = (label_sets ?self0)(source \<mapsto>
           Label_set (vocabulary self source \<union> row_label ` set (data_rows ?rows)))" and
    lc: "\<forall>s. s \<noteq> source \<longrightarrow> label_count self' s = label_count ?self0 s" and
    lc': "label_count self' source \<noteq> None"
    by blast
  from train_loop_Inr [OF t] have "exs = map (built ?self0) (data_rows ?rows)" by simp
  then have len: "length (shuffle rng exs) = length (data_rows ?rows)"
    by (simp add: length_shuffle)
  have run: "get_train_examples fs rng self data_dir source True = Inr (shuffle rng exs, self')"
    unfolding get_train_examples_unfold [OF rd] t by simp
  have ls': "label_sets self' = (label_sets self)(source \<mapsto>
           Label_set (vocabulary self source \<union> row_label ` set (data_rows ?rows)))"
    unfolding ls by (auto simp: fun_eq_iff)
  have lc2: "\<forall>s. s \<noteq> source \<longrightarrow> label_count self' s = label_count self s"
    using lc by auto
  from run len ls' lc2 lc' show ?thesis by blast
qed



lemma get_train_examples_build_Inr:
  assumes building: "label_sets self source = None \<or>
                     (\<exists>S. label_sets self source = Some (Label_set S)) \<and> label_count self source \<noteq> None"
      and run: "get_train_examples fs rng self data_dir source True = Inr (examples, self')"
  shows "fs (path_join data_dir (''train.'' @ source @ ''.tsv'')) \<noteq> None \<and>
         label_sets self' = (label_sets self)(source \<mapsto>
             Label_set (vocabulary self source \<union> train_labels fs data_dir source)) \<and>
         (\<forall>s. s \<noteq> source \<longrightarrow> label_count self' s = label_count self s) \<and>
         label_count self' source \<noteq> None"
proof -
  from get_train_examples_Inr [OF run] obtain lines exs self0 where
    f: "fs (path_join data_dir (''train.'' @ source @ ''.tsv'')) = Some lines" and
    s: "self0 = (if label_sets self source = None
                    then self\<lparr>label_sets := (label_sets self)(source \<mapsto> Label_set {}),
                              label_count := (label_count self)(source \<mapsto> Map.empty)\<rparr>
                    else self)" and
    t: "train_loop self0 source True (enumerate_rows lines) [] = Inr (exs, self')"
    by blast
  have q: "required_columns self0 = required_columns self"
    by (rule required_columns_cong) (simp add: s)
  from train_loop_Inr [OF t]
  have wide: "\<forall>row\<in>set (data_rows (enumerate_rows lines)). required_columns self \<le> length (snd row)"
    unfolding q by simp
  have rd: "read_tsv fs (path_join data_dir (''train.'' @ source @ ''.tsv'')) = Inr lines"
    using f by (simp add: read_tsv_Inr)
  from get_train_examples_build [OF rd wide building, of rng] run
  have "label_sets self' = (label_sets self)(source \<mapsto>
             Label_set (vocabulary self source \<union> row_label ` set (data_rows (enumerate_rows lines))))"
    and "\<forall>s. s \<noteq> source \<longrightarrow> label_count self' s = label_count self s"
    and "label_count self' source \<noteq> None"
    by auto
  with f show ?thesis by (simp add: train_labels_def)
qed

lemma scan_sources_labels:
  assumes "building self"
      and "scan_sources fs rng self data_dir ss = Inr self'"
  shows "building self' \<and>
         (\<forall>s. vocabulary self' s =
                vocabulary self s \<union> (if s \<in> set ss then train_labels fs data_dir s else {})) \<and>
         (\<forall>s. s \<in> set ss \<or> label_sets self s \<noteq> None \<longrightarrow> label_sets self' s \<noteq> None) \<and>
         (\<forall>s\<in>set ss. fs (path_join data_dir (''train.'' @ s @ ''.tsv'')) \<noteq> None)"
  using assms
proof (induction ss arbitrary: self)
  case Nil
  then show ?case by simp
next
  case (Cons source ss)
  from Cons.prems(2) obtain examples self1 where
    g: "get_train_examples fs rng self data_dir source True = Inr (examples, self1)" and
    r: "scan_sources fs rng self1 data_dir ss = Inr self'"
    by (auto split: sum.splits)
  from Cons.prems(1) have b: "label_sets self source = None \<or>
                     (\<exists>S. label_sets self source = Some (Label_set S)) \<and> label_count self source \<noteq> None"
    by (simp add: building_def)
  from get_train_examples_build_Inr [OF b g] have
    f: "fs (path_join data_dir (''train.'' @ source @ ''.tsv'')) \<noteq> None" and
    ls: "label_sets self1 = (label_sets self)(source \<mapsto>
             Label_set (vocabulary self source \<union> train_labels fs data_dir source))" and
    lc: "\<forall>s. s \<noteq> source \<longrightarrow> label_count self1 s = label_count self s" and
    lc': "label_count self1 source \<noteq> None"
    by simp_all
  have b1: "building self1"
    unfolding building_def
  proof
    fix s
    show "label_sets self1 s = None \<or>
          (\<exists>S. label_sets self1 s = Some (Label_set S)) \<and> label_count self1 s \<noteq> None"
    proof (cases "s = source")
      case True
      then show ?thesis using ls lc' by simp
    next
      case False
      then show ?thesis using ls lc Cons.prems(1) by (simp add: building_def)
    qed
  qed
  have v1: "\<And>s. vocabulary self1 s =
              vocabulary self s \<union> (if s = source then train_labels fs data_dir source else {})"
    unfolding vocabulary_def [of self1] ls by (simp add: vocabulary_def)
  have k1: "\<And>s. s = source \<or> label_sets self s \<noteq> None \<Longrightarrow> label_sets self1 s \<noteq> None"
    unfolding ls by auto
  from Cons.IH [OF b1 r] have
    i1: "building self'" and
    i2: "\<forall>s. vocabulary self' s =
                vocabulary self1 s \<union> (if s \<in> set ss then train_labels fs data_dir s else {})" and
    i3: "\<forall>s. s \<in> set ss \<or> label_sets self1 s \<noteq> None \<longrightarrow> label_sets self' s \<noteq> None" and
    i4: "\<forall>s\<in>set ss. fs (path_join data_dir (''train.'' @ s @ ''.tsv'')) \<noteq> None"
    by simp_all
  have "\<forall>s. vocabulary self' s =
                vocabulary self s \<union> (if s \<in> set (source # ss) then train_labels fs data_dir s else {})"
    using i2 v1 by auto
  moreover have "\<forall>s. s \<in> set (source # ss) \<or> label_sets self s \<noteq> None \<longrightarrow> label_sets self' s \<noteq> None"
    using i3 k1 by auto
  moreover have "\<forall>s\<in>set (source # ss). fs (path_join data_dir (''train.'' @ s @ ''.tsv'')) \<noteq> None"
    using i4 f by auto
  ultimately show ?case using i1 by blast
qed

lemma get_labels_entry:
  "fst (get_labels self) key = map_option sorted_container (label_sets self key)"
  by (simp add: get_labels_def sort_label_set_def Let_def)

lemma sorted_container_not_set: "sorted_container c \<noteq> Label_set S"
  by (cases c) simp_all

lemma init_Inr:
  assumes "init fs rng (Some srcs) n_evidences metadata (Some data_dir) = Inr self"
  shows "\<exists>self1. scan_sources fs rng
                    \<lparr>sources = Some srcs, label_sets = Map.empty, label_count = Map.empty,
                     num_evidences = n_evidences, use_metadata = metadata\<rparr> data_dir srcs = Inr self1 \<and>
                  self = sort_label_set self1"
  using assms by (auto simp: init_def Let_def split: sum.splits)

text \<open>
  C5. After the constructor has scanned the training files, \<open>get_labels\<close> holds for
  every scanned source a list that is sorted ascending, has no duplicates, consists of
  exactly the lower-cased labels of the rows of that source's training file, and has as
  many entries as there are distinct labels. \<open>get_labels\<close> never returns an unsorted
  set, for any processor.
\<close>

theorem sorted_label_vocabulary:
  assumes built: "init fs rng (Some srcs) n_evidences metadata (Some data_dir) = Inr self"
      and scanned: "source \<in> set srcs"
  shows "(\<exists>lines ls.
            fs (path_join data_dir (''train.'' @ source @ ''.tsv'')) = Some lines \<and>
            fst (get_labels self) source = Some (Label_list ls) \<and>
            sorted ls \<and> distinct ls \<and>
            set ls = row_label ` set (data_rows (enumerate_rows lines)) \<and>
            length ls = card (row_label ` set (data_rows (enumerate_rows lines)))) \<and>
         (\<forall>any key S. fst (get_labels any) key \<noteq> Some (Label_set S))"
proof
  let ?self0 = "\<lparr>sources = Some srcs, label_sets = Map.empty, label_count = Map.empty,
                     num_evidences = n_evidences, use_metadata = metadata\<rparr>"
  from init_Inr [OF built] obtain self1 where
    sc: "scan_sources fs rng ?self0 data_dir srcs = Inr self1" and
    so: "self = sort_label_set self1" by blast
  have b0: "building ?self0" by (simp add: building_def)
  from scan_sources_labels [OF b0 sc] scanned have
    b1: "building self1" and
    v: "vocabulary self1 source = train_labels fs data_dir source" and
    k: "label_sets self1 source \<noteq> None" and
    f: "fs (path_join data_dir (''train.'' @ source @ ''.tsv'')) \<noteq> None"
    by (simp_all add: vocabulary_def)
  from f obtain lines where lines: "fs (path_join data_dir (''train.'' @ source @ ''.tsv'')) = Some lines"
    by auto
  let ?L = "row_label ` set (data_rows (enumerate_rows lines))"
  from b1 have "label_sets self1 source = None \<or>
      (\<exists>S. label_sets self1 source = Some (Label_set S)) \<and> label_count self1 source \<noteq> None"
    unfolding building_def by (rule spec)
  with k obtain S where S: "label_sets self1 source = Some (Label_set S)"
    by auto
  with v lines have SL: "S = ?L" by (simp add: vocabulary_def train_labels_def)
  have fin: "finite ?L" by simp
  have "label_sets self source = Some (Label_list (sorted_list_of_set ?L))"
    unfolding so using S SL by (simp add: sort_label_set_def)
  then have "fst (get_labels self) source = Some (Label_list (sort (sorted_list_of_set ?L)))"
    by (simp add: get_labels_entry)
  then have g: "fst (get_labels self) source = Some (Label_list (sorted_list_of_set ?L))"
    by (simp add: sorted_sort_id)
  have "sorted (sorted_list_of_set ?L)" "distinct (sorted_list_of_set ?L)"
    "set (sorted_list_of_set ?L) = ?L" "length (sorted_list_of_set ?L) = card ?L"
    using fin by simp_all
  with lines g show "\<exists>lines ls.
            fs (path_join data_dir (''train.'' @ source @ ''.tsv'')) = Some lines \<and>
            fst (get_labels self) source = Some (Label_list ls) \<and>
            sorted ls \<and> distinct ls \<and>
            set ls = row_label ` set (data_rows (enumerate_rows lines)) \<and>
            length ls = card (row_label ` set (data_rows (enumerate_rows lines)))"
    by blast
next
  show "\<forall>any key S. fst (get_labels any) key \<noteq> Some (Label_set S)"
    by (auto simp: get_labels_entry sorted_container_not_set)
qed

section \<open>Runs on the test data\<close>

lemma demo_paths:
  "demo_fs (path_join ''data'' (''train.'' @ ''en'' @ ''.tsv'')) = Some demo_train_lines"
  "demo_fs (path_join ''new'' (''train.'' @ ''en'' @ ''.tsv'')) = Some demo_dev_lines"
  "demo_fs (path_join ''data'' (case None of None \<Rightarrow> ''dev.'' @ ''en'' @ ''.tsv'' | Some name \<Rightarrow> name))
     = Some demo_dev_lines"
  "demo_fs (path_join ''data'' (''test.'' @ ''en'' @ ''.tsv'')) = Some demo_test_lines"
  by code_simp+

lemma demo_wide:
  "list_all (\<lambda>row. required_columns demo_processor \<le> length (snd row))
     (data_rows (enumerate_rows demo_train_lines))"
  "list_all (\<lambda>row. required_columns demo_processor \<le> length (snd row))
     (data_rows (enumerate_rows demo_dev_lines))"
  "list_all (\<lambda>row. required_columns demo_processor \<le> length (snd row))
     (data_rows (enumerate_rows demo_test_lines))"
  "list_all (\<lambda>row. required_columns demo_fresh \<le> length (snd row))
     (data_rows (enumerate_rows demo_train_lines))"
  by code_simp+

theorem filtered_scan_witness:
  "label_sets demo_processor ''en'' = Some (Label_list [''false'', ''true'']) \<and>
   demo_fs (path_join ''data'' (case None of None \<Rightarrow> ''dev.'' @ ''en'' @ ''.tsv'' | Some name \<Rightarrow> name))
     = Some demo_dev_lines \<and>
   list_all (\<lambda>row. required_columns demo_processor \<le> length (snd row))
     (data_rows (enumerate_rows demo_dev_lines)) \<and>
   demo_fs (path_join ''data'' (''test.'' @ ''en'' @ ''.tsv'')) = Some demo_test_lines \<and>
   list_all (\<lambda>row. required_columns demo_processor \<le> length (snd row))
     (data_rows (enumerate_rows demo_test_lines)) \<and>
   get_dev_examples demo_fs demo_processor ''data'' ''en'' None
     = Inr ([demo_example 1 ''claim d'' ''true''], 1) \<and>
   get_test_examples demo_fs demo_processor ''data'' ''en''
     = Inr ([demo_example 1 ''claim f'' ''false''], 1)"
proof -
  have known: "label_sets demo_processor ''en'' = Some (Label_list [''false'', ''true''])"
    by (simp add: demo_processor_def)
  have w1: "\<forall>row\<in>set (data_rows (enumerate_rows demo_dev_lines)).
              required_columns demo_processor \<le> length (snd row)"
    using demo_wide(2) by (simp add: list_all_iff)
  have w2: "\<forall>row\<in>set (data_rows (enumerate_rows demo_test_lines)).
              required_columns demo_processor \<le> length (snd row)"
    using demo_wide(3) by (simp add: list_all_iff)
  have k1: "map (built demo_processor)
              (filter (\<lambda>row. row_label row \<in> labels_of (Label_list [''false'', ''true'']))
                 (data_rows (enumerate_rows demo_dev_lines))) = [demo_example 1 ''claim d'' ''true'']"
    by code_simp
  have s1: "length (filter (\<lambda>row. row_label row \<notin> labels_of (Label_list [''false'', ''true'']))
                 (data_rows (enumerate_rows demo_dev_lines))) = 1"
    by code_simp
  have k2: "map (built demo_processor)
              (filter (\<lambda>row. row_label row \<in> labels_of (Label_list [''false'', ''true'']))
                 (data_rows (enumerate_rows demo_test_lines))) = [demo_example 1 ''claim f'' ''false'']"
    by code_simp
  have s2: "length (filter (\<lambda>row. row_label row \<notin> labels_of (Label_list [''false'', ''true'']))
                 (data_rows (enumerate_rows demo_test_lines))) = 1"
    by code_simp
  note t = filtered_scan [OF known, where fs = demo_fs and data_dir = "''data''" and filename = None
      and lines = demo_dev_lines and lines' = demo_test_lines]
  from t demo_paths(3) w1 have
    "get_dev_examples demo_fs demo_processor ''data'' ''en'' None = Inr ([demo_example 1 ''claim d'' ''true''], 1)"
    unfolding k1 s1 by auto
  moreover from t demo_paths(4) w2 have
    "get_test_examples demo_fs demo_processor ''data'' ''en'' = Inr ([demo_example 1 ''claim f'' ''false''], 1)"
    unfolding k2 s2 by auto
  ultimately show ?thesis using known demo_paths(3,4) demo_wide(2,3) by (intro conjI)
qed

lemma demo_train_run:
  "\<not> isl (get_train_examples demo_fs demo_rng demo_processor ''data'' ''en'' False)"
  "fst (projr (get_train_examples demo_fs demo_rng demo_processor ''data'' ''en'' False)) =
     [demo_example 2 ''claim b'' ''false'', demo_example 4 ''claim c'' ''true'',
      demo_example 1 ''claim a'' ''true'']"
  by code_simp+

lemma demo_filtered_runs:
  "get_dev_examples demo_fs demo_processor ''data'' ''en'' None
     = Inr ([demo_example 1 ''claim d'' ''true''], 1)"
  "get_test_examples demo_fs demo_processor ''data'' ''en''
     = Inr ([demo_example 1 ''claim f'' ''false''], 1)"
  by code_simp+

theorem example_invariant_witness:
  "required_columns demo_processor \<le> length (demo_row ''claim a'' ''True'') \<and>
   create_example demo_processor (demo_row ''claim a'' ''True'') =
     Inr ([''ev 1'', ''ev 2'', ''ev 3''], ''claim a'', ''true'',
          ''language : en, site : site.org, claimant : Bob, claim_date : 20200115, review_date: 20200120'') \<and>
   \<not> isl (get_train_examples demo_fs demo_rng demo_processor ''data'' ''en'' False) \<and>
   fst (projr (get_train_examples demo_fs demo_rng demo_processor ''data'' ''en'' False)) =
     [demo_example 2 ''claim b'' ''false'', demo_example 4 ''claim c'' ''true'',
      demo_example 1 ''claim a'' ''true''] \<and>
   list_all (holds_invariant demo_processor demo_train_lines)
     [demo_example 2 ''claim b'' ''false'', demo_example 4 ''claim c'' ''true'',
      demo_example 1 ''claim a'' ''true''] \<and>
   get_dev_examples demo_fs demo_processor ''data'' ''en'' None
     = Inr ([demo_example 1 ''claim d'' ''true''], 1) \<and>
   list_all (holds_invariant demo_processor demo_dev_lines) [demo_example 1 ''claim d'' ''true''] \<and>
   get_test_examples demo_fs demo_processor ''data'' ''en''
     = Inr ([demo_example 1 ''claim f'' ''false''], 1) \<and>
   list_all (holds_invariant demo_processor demo_test_lines) [demo_example 1 ''claim f'' ''false'']"
proof -
  let ?g = "get_train_examples demo_fs demo_rng demo_processor ''data'' ''en'' False"
  let ?line = "demo_row ''claim a'' ''True''"
  have w: "required_columns demo_processor \<le> length ?line" by code_simp
  have c: "create_example demo_processor ?line =
     Inr ([''ev 1'', ''ev 2'', ''ev 3''], ''claim a'', ''true'',
          ''language : en, site : site.org, claimant : Bob, claim_date : 20200115, review_date: 20200120'')"
    by code_simp
  have g: "?g = Inr (fst (projr ?g), snd (projr ?g))"
    using demo_train_run(1) by (cases ?g) simp_all
  note t = example_invariant [where self = demo_processor and line = ?line and fs = demo_fs
      and rng = demo_rng and data_dir = "''data''" and source = "''en''"
      and create_label_set = False and train_examples = "fst (projr ?g)" and self' = "snd (projr ?g)"
      and filename = None and dev_examples = "[demo_example 1 ''claim d'' ''true'']" and dev_skipped = 1
      and test_examples = "[demo_example 1 ''claim f'' ''false'']" and test_skipped = 1]
  from t g demo_paths(1) have
    i1: "\<forall>ex\<in>set (fst (projr ?g)). holds_invariant demo_processor demo_train_lines ex"
    by auto
  from t demo_filtered_runs(1) demo_paths(3) have
    i2: "\<forall>ex\<in>set [demo_example 1 ''claim d'' ''true'']. holds_invariant demo_processor demo_dev_lines ex"
    by auto
  from t demo_filtered_runs(2) demo_paths(4) have
    i3: "\<forall>ex\<in>set [demo_example 1 ''claim f'' ''false'']. holds_invariant demo_processor demo_test_lines ex"
    by auto
  from i1 have j1: "list_all (holds_invariant demo_processor demo_train_lines)
     [demo_example 2 ''claim b'' ''false'', demo_example 4 ''claim c'' ''true'',
      demo_example 1 ''claim a'' ''true'']"
    unfolding demo_train_run(2) by (simp add: list_all_iff)
  from i2 have j2: "list_all (holds_invariant demo_processor demo_dev_lines) [demo_example 1 ''claim d'' ''true'']"
    by (simp add: list_all_iff)
  from i3 have j3: "list_all (holds_invariant demo_processor demo_test_lines) [demo_example 1 ''claim f'' ''false'']"
    by (simp add: list_all_iff)
  from w c demo_train_run j1 demo_filtered_runs j2 j3 show ?thesis by (intro conjI)
qed




lemma demo_init_run:
  "\<not> isl (init demo_fs demo_rng (Some [''en'']) 3 False (Some ''data''))"
  by code_simp

lemma demo_train_labels:
  "row_label ` set (data_rows (enumerate_rows demo_train_lines)) = set [''false'', ''true'']"
  "sorted [''false'', ''true'']" "distinct [''false'', ''true'']"
  by code_simp+

theorem sorted_label_vocabulary_witness:
  "init demo_fs demo_rng (Some [''en'']) 3 False (Some ''data'') =
     Inr (projr (init demo_fs demo_rng (Some [''en'']) 3 False (Some ''data''))) \<and>
   ''en'' \<in> set [''en''] \<and>
   demo_fs (path_join ''data'' (''train.'' @ ''en'' @ ''.tsv'')) = Some demo_train_lines \<and>
   fst (get_labels (projr (init demo_fs demo_rng (Some [''en'']) 3 False (Some ''data'')))) ''en''
     = Some (Label_list [''false'', ''true''])"
proof -
  let ?i = "init demo_fs demo_rng (Some [''en'']) 3 False (Some ''data'')"
  have h: "?i = Inr (projr ?i)" using demo_init_run by (cases ?i) simp_all
  have m: "''en'' \<in> set [''en'']" by simp
  from sorted_label_vocabulary [OF h m] demo_paths(1) obtain ls where
    g: "fst (get_labels (projr ?i)) ''en'' = Some (Label_list ls)" and
    s: "sorted ls" "distinct ls" and
    e: "set ls = row_label ` set (data_rows (enumerate_rows demo_train_lines))"
    by auto
  have "ls = [''false'', ''true'']"
    using s e demo_train_labels by (intro sorted_distinct_set_unique) simp_all
  with g h m demo_paths(1) show ?thesis by simp
qed

section \<open>Label indices, masks and truncation\<close>

lemma build_features_label:
  assumes "build_features (label_map label_list) example cs = Inr f"
  shows "\<exists>i<length label_list.
           InputExample.label example = Some (label_list ! i) \<and> label f = Some i"
proof -
  from assms obtain l i where l: "InputExample.label example = Some l"
    and i: "label_map label_list l = Some i" and f: "label f = Some i"
    unfolding build_features_Inr by auto
  from label_map_SomeD [OF i] l f show ?thesis by auto
qed

lemma converted_labels:
  assumes "list_all2 (\<lambda>example g. build_features (label_map label_list) example (choices example) = Inr g)
             examples features"
  shows "\<forall>k<length examples. \<exists>i<length label_list.
           InputExample.label (examples ! k) = Some (label_list ! i) \<and> label (features ! k) = Some i"
proof (intro allI impI)
  fix k assume k: "k < length examples"
  from list_all2_nthD [OF assms k]
  have "build_features (label_map label_list) (examples ! k) (choices (examples ! k)) = Inr (features ! k)"
    by simp
  then show "\<exists>i<length label_list.
           InputExample.label (examples ! k) = Some (label_list ! i) \<and> label (features ! k) = Some i"
    by (rule build_features_label)
qed

text \<open>
  C6. For a duplicate-free label list: every feature that either converter returns
  carries as label index a position of its example's label in the label list, the label at
  position \<open>i\<close> of the list maps to \<open>i\<close>, and the label map is a bijection between
  the labels of the list and the indices below its length.
\<close>

theorem label_index_positions:
  assumes "distinct label_list"
  shows "(fst (xfact_evidence_convert_examples_to_features examples label_list max_length tokenizer)
            = Inr features \<longrightarrow>
          (\<forall>k<length examples. \<exists>i<length label_list.
             InputExample.label (examples ! k) = Some (label_list ! i) \<and>
             label (features ! k) = Some i)) \<and>
         (fst (xfact_claim_evidence_convert_examples_to_features examples label_list max_length tokenizer)
            = Inr features' \<longrightarrow>
          (\<forall>k<length examples. \<exists>i<length label_list.
             InputExample.label (examples ! k) = Some (label_list ! i) \<and>
             label (features' ! k) = Some i)) \<and>
         (\<forall>i<length label_list. label_map label_list (label_list ! i) = Some i) \<and>
         (\<forall>i<length label_list. \<forall>j<length label_list. label_list ! i = label_list ! j \<longrightarrow> i = j) \<and>
         bij_betw (\<lambda>l. the (label_map label_list l)) (set label_list) {..<length label_list}"
proof (intro conjI impI)
  assume "fst (xfact_evidence_convert_examples_to_features examples label_list max_length tokenizer)
            = Inr features"
  then show "\<forall>k<length examples. \<exists>i<length label_list.
             InputExample.label (examples ! k) = Some (label_list ! i) \<and>
             label (features ! k) = Some i"
    unfolding evidence_convert_Inr by (rule converted_labels)
next
  assume "fst (xfact_claim_evidence_convert_examples_to_features examples label_list max_length tokenizer)
            = Inr features'"
  then show "\<forall>k<length examples. \<exists>i<length label_list.
             InputExample.label (examples ! k) = Some (label_list ! i) \<and>
             label (features' ! k) = Some i"
    unfolding claim_evidence_convert_Inr by (rule converted_labels)
next
  show "\<forall>i<length label_list. label_map label_list (label_list ! i) = Some i"
    using label_map_nth [OF assms] by blast
  show "\<forall>i<length label_list. \<forall>j<length label_list. label_list ! i = label_list ! j \<longrightarrow> i = j"
    using assms by (simp add: nth_eq_iff_index_eq)
  show "bij_betw (\<lambda>l. the (label_map label_list l)) (set label_list) {..<length label_list}"
    using assms by (rule label_map_bij)
qed

theorem label_index_positions_witness:
  "distinct demo_labels \<and>
   fst (xfact_evidence_convert_examples_to_features demo_examples demo_labels 3 demo_tokenizer)
     = Inr demo_evidence_features \<and>
   fst (xfact_claim_evidence_convert_examples_to_features demo_examples demo_labels 3 demo_tokenizer)
     = Inr demo_claim_evidence_features \<and>
   InputExample.label (demo_examples ! 0) = Some (demo_labels ! 1) \<and>
   label (demo_evidence_features ! 0) = Some 1 \<and>
   label (demo_claim_evidence_features ! 0) = Some 1 \<and>
   label_map demo_labels (demo_labels ! 1) = Some 1 \<and>
   bij_betw (\<lambda>l. the (label_map demo_labels l)) (set demo_labels) {..<length demo_labels}"
proof -
  have d: "distinct demo_labels" by (simp add: demo_labels_def)
  have r1: "fst (xfact_evidence_convert_examples_to_features demo_examples demo_labels 3 demo_tokenizer)
     = Inr demo_evidence_features"
    by (simp add: demo_evidence_run)
  have r2: "fst (xfact_claim_evidence_convert_examples_to_features demo_examples demo_labels 3 demo_tokenizer)
     = Inr demo_claim_evidence_features"
    by (simp add: demo_claim_evidence_run)
  have l0: "InputExample.label (demo_examples ! 0) = Some (demo_labels ! 1)"
    by (simp add: demo_examples_def demo_labels_def)
  have k: "0 < length demo_examples" "1 < length demo_labels"
    by (simp_all add: demo_examples_def demo_labels_def)
  note t = label_index_positions [OF d, where examples = demo_examples and max_length = 3
      and tokenizer = demo_tokenizer and features = demo_evidence_features
      and features' = demo_claim_evidence_features]
  from t r1 k(1) obtain i where i: "i < length demo_labels"
    "InputExample.label (demo_examples ! 0) = Some (demo_labels ! i)"
    "label (demo_evidence_features ! 0) = Some i" by blast
  from t i(1,2) l0 k(2) have "i = 1" by auto
  with i have f1: "label (demo_evidence_features ! 0) = Some 1" by simp
  from t r2 k(1) obtain j where j: "j < length demo_labels"
    "InputExample.label (demo_examples ! 0) = Some (demo_labels ! j)"
    "label (demo_claim_evidence_features ! 0) = Some j" by blast
  from t j(1,2) l0 k(2) have "j = 1" by auto
  with j have f2: "label (demo_claim_evidence_features ! 0) = Some 1" by simp
  from t k(2) have m: "label_map demo_labels (demo_labels ! 1) = Some 1" by blast
  from t have b: "bij_betw (\<lambda>l. the (label_map demo_labels l)) (set demo_labels) {..<length demo_labels}"
    by blast
  from d r1 r2 l0 f1 f2 m b show ?thesis by (intro conjI)
qed

lemma build_features_decided:
  assumes "build_features lmap example cs = Inr f"
  shows "decided_by_first_choice f cs"
proof -
  from assms obtain am tt where
    a: "collect_optional ''attention_mask'' enc_attention_mask cs = Inr am" and
    t: "collect_optional ''token_type_ids'' enc_token_type_ids cs = Inr tt" and
    f: "attention_mask f = am" "token_type_ids f = tt"
    unfolding build_features_Inr by auto
  from a t f show ?thesis
    unfolding collect_optional_Inr decided_by_first_choice_def keys_consistent_def list_all_iff
    by (auto split: if_splits)
qed

lemma converted_decided:
  assumes "list_all2 (\<lambda>example g. build_features lmap example (choices example) = Inr g)
             examples features"
  shows "length features = length examples \<and>
         (\<forall>k<length examples. decided_by_first_choice (features ! k) (choices (examples ! k)))"
proof (intro conjI allI impI)
  show "length features = length examples" using assms by (simp add: list_all2_lengthD)
  fix k assume k: "k < length examples"
  from list_all2_nthD [OF assms k]
  have "build_features lmap (examples ! k) (choices (examples ! k)) = Inr (features ! k)"
    by simp
  then show "decided_by_first_choice (features ! k) (choices (examples ! k))"
    by (rule build_features_decided)
qed

text \<open>
  C3, as stated, fails: the decision is taken for each example from its own first choice.
  With a tokenizer that returns attention masks for some texts only, one batch holds a
  feature without masks and a feature with masks, in both converters, and the masks of
  the second example are included although the tokenizer returns none for the choices of
  the first example. Nothing is raised.
\<close>

theorem mask_decision_varies_in_batch:
  "enc_attention_mask (masking_tokenizer ''plain'' (Some ''c1'') 3) = None \<and>
   fst (xfact_evidence_convert_examples_to_features mixed_examples [''true''] 3 masking_tokenizer) =
     Inr [\<lparr>example_id = ''train-1'', input_ids = [[112, 108, 97]],
           attention_mask = None, token_type_ids = None, label = Some 0\<rparr>,
          \<lparr>example_id = ''train-2'', input_ids = [[109, 97, 115]],
           attention_mask = Some [[1, 1, 1]], token_type_ids = None, label = Some 0\<rparr>] \<and>
   fst (xfact_claim_evidence_convert_examples_to_features mixed_examples [''true''] 3 masking_tokenizer) =
     Inr [\<lparr>example_id = ''train-1'', input_ids = [[112, 108, 97], [99, 49, 0]],
           attention_mask = None, token_type_ids = None, label = Some 0\<rparr>,
          \<lparr>example_id = ''train-2'', input_ids = [[109, 97, 115], [109, 111, 114]],
           attention_mask = Some [[1, 1, 1], [1, 1, 1]], token_type_ids = None, label = Some 0\<rparr>]"
  by code_simp

text \<open>
  C3, amended. In both converters the decision is taken per example: the attention masks
  (the segment ids) of an example are in its \<open>InputFeatures\<close> if and only if the
  tokenizer returns them for the first choice of that example, and then they are those of
  all its choices, each of which has them. So an example whose first choice has them
  while a later choice lacks them makes the conversion fail; a first choice without them,
  and availability that differs from one example to the next, are accepted.
\<close>

theorem mask_decision_per_example:
  "(fst (xfact_evidence_convert_examples_to_features examples label_list max_length tokenizer)
      = Inr features \<longrightarrow>
    length features = length examples \<and>
    (\<forall>k<length examples.
       decided_by_first_choice (features ! k) (evidence_choices tokenizer max_length (examples ! k)))) \<and>
   (fst (xfact_claim_evidence_convert_examples_to_features examples label_list max_length tokenizer)
      = Inr features' \<longrightarrow>
    length features' = length examples \<and>
    (\<forall>k<length examples.
       decided_by_first_choice (features' ! k)
         (claim_evidence_choices tokenizer max_length (examples ! k))))"
proof (intro conjI impI)
  assume r: "fst (xfact_evidence_convert_examples_to_features examples label_list max_length tokenizer)
      = Inr features"
  from converted_decided [OF r [unfolded evidence_convert_Inr]]
  show "length features = length examples"
    and "\<forall>k<length examples.
       decided_by_first_choice (features ! k) (evidence_choices tokenizer max_length (examples ! k))"
    by simp_all
next
  assume r: "fst (xfact_claim_evidence_convert_examples_to_features examples label_list max_length tokenizer)
      = Inr features'"
  from converted_decided [OF r [unfolded claim_evidence_convert_Inr]]
  show "length features' = length examples"
    and "\<forall>k<length examples.
       decided_by_first_choice (features' ! k)
         (claim_evidence_choices tokenizer max_length (examples ! k))"
    by simp_all
qed

theorem mask_decision_per_example_witness:
  "fst (xfact_evidence_convert_examples_to_features demo_examples demo_labels 3 demo_tokenizer)
     = Inr demo_evidence_features \<and>
   fst (xfact_claim_evidence_convert_examples_to_features demo_examples demo_labels 3 demo_tokenizer)
     = Inr demo_claim_evidence_features \<and>
   length demo_evidence_features = length demo_examples \<and>
   decided_by_first_choice (demo_evidence_features ! 1)
     (evidence_choices demo_tokenizer 3 (demo_examples ! 1)) \<and>
   length demo_claim_evidence_features = length demo_examples \<and>
   decided_by_first_choice (demo_claim_evidence_features ! 1)
     (claim_evidence_choices demo_tokenizer 3 (demo_examples ! 1))"
proof -
  have r1: "fst (xfact_evidence_convert_examples_to_features demo_examples demo_labels 3 demo_tokenizer)
     = Inr demo_evidence_features"
    by (simp add: demo_evidence_run)
  have r2: "fst (xfact_claim_evidence_convert_examples_to_features demo_examples demo_labels 3 demo_tokenizer)
     = Inr demo_claim_evidence_features"
    by (simp add: demo_claim_evidence_run)
  have k: "1 < length demo_examples" by (simp add: demo_examples_def)
  note t = mask_decision_per_example [where examples = demo_examples and label_list = demo_labels
      and max_length = 3 and tokenizer = demo_tokenizer and features = demo_evidence_features
      and features' = demo_claim_evidence_features]
  from t r1 r2 k show ?thesis by blast
qed

lemma list_all2_ex_iff:
  "(\<exists>ys. list_all2 P xs ys) \<longleftrightarrow> (\<forall>x\<in>set xs. \<exists>y. P x y)"
proof (induction xs)
  case Nil
  show ?case by simp
next
  case (Cons x xs)
  show ?case
  proof
    assume "\<exists>ys. list_all2 P (x # xs) ys"
    then obtain y ys where "P x y" "list_all2 P xs ys" by (auto simp: list_all2_Cons1)
    with Cons.IH show "\<forall>x\<in>set (x # xs). \<exists>y. P x y" by auto
  next
    assume a: "\<forall>x\<in>set (x # xs). \<exists>y. P x y"
    then obtain y where y: "P x y" by auto
    from a Cons.IH obtain ys where "list_all2 P xs ys" by auto
    with y have "list_all2 P (x # xs) (y # ys)" by simp
    then show "\<exists>ys. list_all2 P (x # xs) ys" by blast
  qed
qed

lemma build_features_returns_iff:
  "(\<exists>f. build_features (label_map label_list) example cs = Inr f) \<longleftrightarrow>
     (\<exists>l\<in>set label_list. InputExample.label example = Some l) \<and> cs \<noteq> [] \<and> keys_consistent cs"
proof
  assume "\<exists>f. build_features (label_map label_list) example cs = Inr f"
  then obtain f where f: "build_features (label_map label_list) example cs = Inr f" by blast
  from build_features_label [OF f] have "\<exists>l\<in>set label_list. InputExample.label example = Some l"
    by auto
  moreover from build_features_decided [OF f] have "cs \<noteq> []" "keys_consistent cs"
    by (simp_all add: decided_by_first_choice_def)
  ultimately show "(\<exists>l\<in>set label_list. InputExample.label example = Some l) \<and> cs \<noteq> [] \<and> keys_consistent cs"
    by simp
next
  assume a: "(\<exists>l\<in>set label_list. InputExample.label example = Some l) \<and> cs \<noteq> [] \<and> keys_consistent cs"
  then obtain l where l: "l \<in> set label_list" "InputExample.label example = Some l" by blast
  then obtain i where i: "label_map label_list l = Some i"
    using label_map_None_iff [of label_list l] by (cases "label_map label_list l") auto
  from a have am: "\<exists>am. collect_optional ''attention_mask'' enc_attention_mask cs = Inr am"
    unfolding collect_optional_Inr keys_consistent_def list_all_iff by auto
  from a have tt: "\<exists>tt. collect_optional ''token_type_ids'' enc_token_type_ids cs = Inr tt"
    unfolding collect_optional_Inr keys_consistent_def list_all_iff by auto
  from l i am tt show "\<exists>f. build_features (label_map label_list) example cs = Inr f"
    unfolding build_features_Inr by blast
qed

lemma build_features_ids:
  "build_features lmap example cs = Inr f \<Longrightarrow> example_id f = InputExample.example_id example"
  by (auto simp: build_features_Inr)

lemma converted_ids:
  assumes "list_all2 (\<lambda>example g. build_features lmap example (choices example) = Inr g)
             examples features"
  shows "map example_id features = map InputExample.example_id examples"
  using assms
proof (induction examples arbitrary: features)
  case Nil
  then show ?case by simp
next
  case (Cons example examples)
  then obtain g gs where "features = g # gs"
    "build_features lmap example (choices example) = Inr g"
    "list_all2 (\<lambda>example g. build_features lmap example (choices example) = Inr g) examples gs"
    by (auto simp: list_all2_Cons1)
  with Cons.IH [of gs] show ?case by (simp add: build_features_ids)
qed

lemma read_all_map_cong:
  "(\<And>x. field (F x) = field (G x)) \<Longrightarrow>
   read_all key field (map F xs) = read_all key field (map G xs)"
  by (induction xs) (simp_all cong: option.case_cong)

lemma collect_optional_nonempty:
  "xs \<noteq> [] \<Longrightarrow>
   collect_optional key field xs =
     (case field (hd xs) of None \<Rightarrow> Inr None
      | Some _ \<Rightarrow> (case read_all key field xs of Inl e \<Rightarrow> Inl e | Inr vs \<Rightarrow> Inr (Some vs)))"
  by (cases xs) (auto simp: collect_optional_def simp del: read_all.simps split: option.splits)

lemma collect_optional_map_cong:
  assumes "\<And>x. field (F x) = field (G x)"
  shows "collect_optional key field (map F xs) = collect_optional key field (map G xs)"
proof (cases "xs = []")
  case True
  then show ?thesis by simp
next
  case False
  have r: "read_all key field (map F xs) = read_all key field (map G xs)"
    using assms by (rule read_all_map_cong)
  have h: "field (hd (map F xs)) = field (hd (map G xs))"
    using False assms by (simp add: hd_map)
  from False have n: "map F xs \<noteq> []" "map G xs \<noteq> []" by simp_all
  show ?thesis
    unfolding collect_optional_nonempty [OF n(1)] collect_optional_nonempty [OF n(2)] r h ..
qed

lemma build_features_map_cong:
  assumes "\<And>x. enc_input_ids (F x) = enc_input_ids (G x)"
      and "\<And>x. enc_attention_mask (F x) = enc_attention_mask (G x)"
      and "\<And>x. enc_token_type_ids (F x) = enc_token_type_ids (G x)"
  shows "build_features lmap example (map F xs) = build_features lmap example (map G xs)"
proof -
  have i: "map enc_input_ids (map F xs) = map enc_input_ids (map G xs)"
    using assms(1) by simp
  have a: "collect_optional ''attention_mask'' enc_attention_mask (map F xs) =
           collect_optional ''attention_mask'' enc_attention_mask (map G xs)"
    using assms(2) by (rule collect_optional_map_cong)
  have t: "collect_optional ''token_type_ids'' enc_token_type_ids (map F xs) =
           collect_optional ''token_type_ids'' enc_token_type_ids (map G xs)"
    using assms(3) by (rule collect_optional_map_cong)
  show ?thesis unfolding build_features_def i a t ..
qed

lemma convert_loop_cong:
  assumes "\<And>example. build_features lmap example (choices example) =
                      build_features lmap example (choices' example)"
  shows "fst (convert_loop choices lmap examples features logged) =
         fst (convert_loop choices' lmap examples features logged')"
proof (induction examples arbitrary: features logged logged')
  case Nil
  show ?case by simp
next
  case (Cons example examples)
  show ?case
  proof (cases "build_features lmap example (choices' example)")
    case (Inl e)
    then show ?thesis using assms [of example] by (simp add: Let_def)
  next
    case (Inr f)
    then show ?thesis using assms [of example] Cons.IH by (simp add: Let_def)
  qed
qed

lemma evidence_choices_map:
  "evidence_choices tokenizer max_length example =
     map (\<lambda>context. tokenizer (question example) (Some context) max_length) (contexts example)"
  by (simp add: evidence_choices_def)

lemma claim_evidence_choices_map:
  "claim_evidence_choices tokenizer max_length example =
     map (\<lambda>text. tokenizer text None max_length) (question example # contexts example)"
  by (simp add: claim_evidence_choices_def)

text \<open>
  C9, as stated, fails for the evidence-pairing converter: an example with no evidence,
  its label in the label list, ends the conversion with \<open>IndexError\<close> (the test
  \<open>choices_inputs[0]\<close> on an empty list), truncation or not.
\<close>

theorem no_evidence_is_fatal:
  "InputExample.label no_evidence_example = Some ''true'' \<and>
   contexts no_evidence_example = [] \<and>
   fst (xfact_evidence_convert_examples_to_features [no_evidence_example] [''false'', ''true''] 3
          demo_tokenizer) = Inl IndexError"
  by code_simp

text \<open>
  C9, amended. Truncation is never fatal and never drops an example: whatever the
  tokenizer reports as truncated, the features are the same, and a converter returns
  exactly when every example has its label in the label list, the tokenizer returns
  attention masks and segment ids for every choice of an example whenever it returns
  them for its first choice, and (evidence-pairing converter only) every example has at
  least one evidence; it then returns one \<open>InputFeatures\<close> per example, in the same
  order.
\<close>

theorem truncation_not_fatal:
  "((\<exists>features. fst (xfact_evidence_convert_examples_to_features examples label_list max_length
                        tokenizer) = Inr features) \<longleftrightarrow>
      (\<forall>example\<in>set examples.
         (\<exists>l\<in>set label_list. InputExample.label example = Some l) \<and>
         contexts example \<noteq> [] \<and>
         keys_consistent (evidence_choices tokenizer max_length example))) \<and>
   (fst (xfact_evidence_convert_examples_to_features examples label_list max_length tokenizer)
      = Inr features \<longrightarrow>
    length features = length examples \<and>
    map example_id features = map InputExample.example_id examples) \<and>
   ((\<exists>features. fst (xfact_claim_evidence_convert_examples_to_features examples label_list max_length
                        tokenizer) = Inr features) \<longleftrightarrow>
      (\<forall>example\<in>set examples.
         (\<exists>l\<in>set label_list. InputExample.label example = Some l) \<and>
         keys_consistent (claim_evidence_choices tokenizer max_length example))) \<and>
   (fst (xfact_claim_evidence_convert_examples_to_features examples label_list max_length tokenizer)
      = Inr features' \<longrightarrow>
    length features' = length examples \<and>
    map example_id features' = map InputExample.example_id examples) \<and>
   fst (xfact_evidence_convert_examples_to_features examples label_list max_length
          (\<lambda>text_a text_b n. (tokenizer text_a text_b n)\<lparr>enc_num_truncated_tokens := report text_a text_b n\<rparr>))
     = fst (xfact_evidence_convert_examples_to_features examples label_list max_length tokenizer) \<and>
   fst (xfact_claim_evidence_convert_examples_to_features examples label_list max_length
          (\<lambda>text_a text_b n. (tokenizer text_a text_b n)\<lparr>enc_num_truncated_tokens := report text_a text_b n\<rparr>))
     = fst (xfact_claim_evidence_convert_examples_to_features examples label_list max_length tokenizer)"
proof (intro conjI impI)
  show "(\<exists>features. fst (xfact_evidence_convert_examples_to_features examples label_list max_length
                        tokenizer) = Inr features) \<longleftrightarrow>
      (\<forall>example\<in>set examples.
         (\<exists>l\<in>set label_list. InputExample.label example = Some l) \<and>
         contexts example \<noteq> [] \<and>
         keys_consistent (evidence_choices tokenizer max_length example))"
    unfolding evidence_convert_Inr list_all2_ex_iff build_features_returns_iff
    by (simp add: evidence_choices_def)
  show "(\<exists>features. fst (xfact_claim_evidence_convert_examples_to_features examples label_list max_length
                        tokenizer) = Inr features) \<longleftrightarrow>
      (\<forall>example\<in>set examples.
         (\<exists>l\<in>set label_list. InputExample.label example = Some l) \<and>
         keys_consistent (claim_evidence_choices tokenizer max_length example))"
    unfolding claim_evidence_convert_Inr list_all2_ex_iff build_features_returns_iff
    by (simp add: claim_evidence_choices_def)
  show "fst (xfact_evidence_convert_examples_to_features examples label_list max_length
          (\<lambda>text_a text_b n. (tokenizer text_a text_b n)\<lparr>enc_num_truncated_tokens := report text_a text_b n\<rparr>))
     = fst (xfact_evidence_convert_examples_to_features examples label_list max_length tokenizer)"
    unfolding xfact_evidence_convert_examples_to_features_def
    by (rule convert_loop_cong) (simp only: evidence_choices_map, rule build_features_map_cong, simp_all)
  show "fst (xfact_claim_evidence_convert_examples_to_features examples label_list max_length
          (\<lambda>text_a text_b n. (tokenizer text_a text_b n)\<lparr>enc_num_truncated_tokens := report text_a text_b n\<rparr>))
     = fst (xfact_claim_evidence_convert_examples_to_features examples label_list max_length tokenizer)"
    unfolding xfact_claim_evidence_convert_examples_to_features_def
    by (rule convert_loop_cong) (simp only: claim_evidence_choices_map, rule build_features_map_cong, simp_all)
next
  assume "fst (xfact_evidence_convert_examples_to_features examples label_list max_length tokenizer)
      = Inr features"
  then have a: "list_all2 (\<lambda>example g. build_features (label_map label_list) example
                   (evidence_choices tokenizer max_length example) = Inr g) examples features"
    by (simp add: evidence_convert_Inr)
  then show "length features = length examples" by (simp add: list_all2_lengthD)
  from a show "map example_id features = map InputExample.example_id examples"
    by (rule converted_ids)
next
  assume "fst (xfact_claim_evidence_convert_examples_to_features examples label_list max_length tokenizer)
      = Inr features'"
  then have a: "list_all2 (\<lambda>example g. build_features (label_map label_list) example
                   (claim_evidence_choices tokenizer max_length example) = Inr g) examples features'"
    by (simp add: claim_evidence_convert_Inr)
  then show "length features' = length examples" by (simp add: list_all2_lengthD)
  from a show "map example_id features' = map InputExample.example_id examples"
    by (rule converted_ids)
qed

theorem truncation_not_fatal_witness:
  "fst (xfact_evidence_convert_examples_to_features demo_examples demo_labels 3 demo_tokenizer)
     = Inr demo_evidence_features \<and>
   snd (xfact_evidence_convert_examples_to_features demo_examples demo_labels 3 demo_tokenizer) = 1 \<and>
   list_all (\<lambda>example. (\<exists>l\<in>set demo_labels. InputExample.label example = Some l) \<and>
                        contexts example \<noteq> [] \<and>
                        keys_consistent (evidence_choices demo_tokenizer 3 example)) demo_examples \<and>
   length demo_evidence_features = length demo_examples \<and>
   map example_id demo_evidence_features = map InputExample.example_id demo_examples \<and>
   fst (xfact_claim_evidence_convert_examples_to_features demo_examples demo_labels 3 demo_tokenizer)
     = Inr demo_claim_evidence_features \<and>
   list_all (\<lambda>example. (\<exists>l\<in>set demo_labels. InputExample.label example = Some l) \<and>
                        keys_consistent (claim_evidence_choices demo_tokenizer 3 example)) demo_examples \<and>
   length demo_claim_evidence_features = length demo_examples \<and>
   map example_id demo_claim_evidence_features = map InputExample.example_id demo_examples \<and>
   fst (xfact_evidence_convert_examples_to_features demo_examples demo_labels 3
          (\<lambda>text_a text_b n. (demo_tokenizer text_a text_b n)\<lparr>enc_num_truncated_tokens := None\<rparr>))
     = Inr demo_evidence_features \<and>
   fst (xfact_claim_evidence_convert_examples_to_features demo_examples demo_labels 3
          (\<lambda>text_a text_b n. (demo_tokenizer text_a text_b n)\<lparr>enc_num_truncated_tokens := None\<rparr>))
     = Inr demo_claim_evidence_features"
proof -
  have r1: "fst (xfact_evidence_convert_examples_to_features demo_examples demo_labels 3 demo_tokenizer)
     = Inr demo_evidence_features"
    by (simp add: demo_evidence_run)
  have l1: "snd (xfact_evidence_convert_examples_to_features demo_examples demo_labels 3 demo_tokenizer) = 1"
    by (simp add: demo_evidence_run)
  have r2: "fst (xfact_claim_evidence_convert_examples_to_features demo_examples demo_labels 3 demo_tokenizer)
     = Inr demo_claim_evidence_features"
    by (simp add: demo_claim_evidence_run)
  note t = truncation_not_fatal [where examples = demo_examples and label_list = demo_labels
      and max_length = 3 and tokenizer = demo_tokenizer and features = demo_evidence_features
      and features' = demo_claim_evidence_features and report = "\<lambda>text_a text_b n. None"]
  from t r1 have a1: "list_all (\<lambda>example. (\<exists>l\<in>set demo_labels. InputExample.label example = Some l) \<and>
                        contexts example \<noteq> [] \<and>
                        keys_consistent (evidence_choices demo_tokenizer 3 example)) demo_examples"
    unfolding list_all_iff by blast
  from t r2 have a2: "list_all (\<lambda>example. (\<exists>l\<in>set demo_labels. InputExample.label example = Some l) \<and>
                        keys_consistent (claim_evidence_choices demo_tokenizer 3 example)) demo_examples"
    unfolding list_all_iff by blast
  from t r1 have b1: "length demo_evidence_features = length demo_examples"
    "map example_id demo_evidence_features = map InputExample.example_id demo_examples"
    by blast+
  from t r2 have b2: "length demo_claim_evidence_features = length demo_examples"
    "map example_id demo_claim_evidence_features = map InputExample.example_id demo_examples"
    by blast+
  from t r1 have c1: "fst (xfact_evidence_convert_examples_to_features demo_examples demo_labels 3
          (\<lambda>text_a text_b n. (demo_tokenizer text_a text_b n)\<lparr>enc_num_truncated_tokens := None\<rparr>))
     = Inr demo_evidence_features"
    by simp
  from t r2 have c2: "fst (xfact_claim_evidence_convert_examples_to_features demo_examples demo_labels 3
          (\<lambda>text_a text_b n. (demo_tokenizer text_a text_b n)\<lparr>enc_num_truncated_tokens := None\<rparr>))
     = Inr demo_claim_evidence_features"
    by simp
  from r1 l1 a1 b1 r2 a2 b2 c1 c2 show ?thesis by (intro conjI)
qed

section \<open>The year filter\<close>


lemma astype_str_bits: "astype_str (Number 0) = ''0''" "astype_str (Number 1) = ''1''"
  by code_simp+

















end
